theory Spec2Isabelle
  imports Complex_Main
begin

section \<open>Values, exceptions and the outside world\<close>

text \<open>
  The benchmark script \<^verbatim>\<open>src/python/benchmark.py\<close> times two ways of computing the mean,
  median and variance of \<^verbatim>\<open>fare_amount\<close> grouped by \<^verbatim>\<open>passenger_count\<close>: reading a CSV file
  with pandas and aggregating locally, and sending one aggregation query to ClickHouse.

  A Python float is a binary64 number: a real number here, every arithmetic operation on
  floats being followed by the rounding \<open>double_round\<close> of the section on double arithmetic.
  A cell of a table is a finite number or is missing (pandas' NaN, SQL's NULL, Python's
  None): \<open>None\<close>. A DataFrame is the list of its named columns, in column order. Every
  exception the script can meet is a value of \<open>error\<close>.
\<close>

datatype error =
    StatisticsError
  | ZeroDivisionError
  | KeyError string
  | ValueError string
  | FileNotFoundError string
  | EmptyDataError
  | OSError string
  | ClientError string

type_synonym cell = "real option"

type_synonym frame = "(string \<times> cell list) list"

text \<open>
  What lies outside the script: the monotonic clock (\<open>ticks w n\<close> is the reading that the
  \<open>n\<close>-th call of \<^verbatim>\<open>time.perf_counter\<close> returns), the file system (a CSV file is the table it
  holds; writing to a path of \<open>unwritable\<close> raises), and the remote engine
  (\<open>remote w database table n\<close> is what the \<open>n\<close>-th query meets: an exception, or the rows
  \<open>(passenger_count, fare_amount)\<close> of the table at that moment). The counters and the log
  \<open>writes\<close> record which external calls were made.
\<close>

record world =
  ticks :: "nat \<Rightarrow> real"
  nticks :: nat
  files :: "string \<Rightarrow> frame option"
  nreads :: nat
  unwritable :: "string list"
  writes :: "(string \<times> frame) list"
  remote :: "string \<Rightarrow> string \<Rightarrow> nat \<Rightarrow> error + (cell \<times> cell) list"
  nqueries :: nat

type_synonym 'a action = "world \<Rightarrow> (error + 'a) \<times> world"

definition succeed :: "'a \<Rightarrow> 'a action" where
  "succeed x w = (Inr x, w)"

definition from_result :: "error + 'a \<Rightarrow> 'a action" where
  "from_result r w = (r, w)"

text \<open>Sequencing: an exception of the first statement skips the rest.\<close>

definition and_then :: "'a action \<Rightarrow> ('a \<Rightarrow> 'b action) \<Rightarrow> 'b action" where
  "and_then m f w = (case m w of (Inl e, w') \<Rightarrow> (Inl e, w') | (Inr x, w') \<Rightarrow> f x w')"

definition bind_result :: "error + 'a \<Rightarrow> ('a \<Rightarrow> error + 'b) \<Rightarrow> error + 'b" where
  "bind_result r f = (case r of Inl e \<Rightarrow> Inl e | Inr x \<Rightarrow> f x)"

text \<open>\<^verbatim>\<open>for i in xs: body\<close>, with the loop's variables threaded through as \<open>s\<close>.\<close>

fun for_loop :: "'i list \<Rightarrow> ('i \<Rightarrow> 's \<Rightarrow> 's action) \<Rightarrow> 's \<Rightarrow> 's action" where
  "for_loop [] body s w = (Inr s, w)"
| "for_loop (i # rest) body s w =
     (case body i s w of
        (Inl e, w') \<Rightarrow> (Inl e, w')
      | (Inr s', w') \<Rightarrow> for_loop rest body s' w')"

text \<open>\<^verbatim>\<open>range(n)\<close> of a Python int: empty when \<open>n \<le> 0\<close>.\<close>

definition py_range :: "int \<Rightarrow> nat list" where
  "py_range n = [0..<nat n]"

definition perf_counter :: "real action" where
  "perf_counter w = (Inr (ticks w (nticks w)), w\<lparr>nticks := Suc (nticks w)\<rparr>)"

section \<open>Double arithmetic\<close>

text \<open>
  An operation on floats returns the binary64 number nearest to the exact result, the one
  with the even significand when two are equally near. \<open>double_round x\<close> is that number: a
  multiple of \<open>2 ^ q\<close> with a significand of at most 53 bits, where \<open>q\<close> is 52 below the binary
  exponent of \<open>x\<close>, and \<open>- 1074\<close> in the subnormal range. Results beyond the largest finite
  double, which Python turns into \<^verbatim>\<open>inf\<close>, are outside the model: it is meant for clock
  readings and for fares of moderate size, \<open>moderate\<close> being a bound under which no sum,
  difference, product or quotient that the script or the pandas kernels form can leave the
  range.
\<close>

definition round_half_even :: "real \<Rightarrow> int" where
  "round_half_even t =
     (let f = \<lfloor>t\<rfloor> in
      if t - of_int f < 1 / 2 then f
      else if 1 / 2 < t - of_int f then f + 1
      else if even f then f else f + 1)"

definition double_round :: "real \<Rightarrow> real" where
  "double_round x =
     (if x = 0 then 0
      else let q = max \<lfloor>log 2 \<bar>x\<bar>\<rfloor> (- 1022) - 52
           in of_int (round_half_even (x / 2 powr of_int q)) * 2 powr of_int q)"


section \<open>The statistics module and the built-ins\<close>

text \<open>
  \<^verbatim>\<open>statistics.mean\<close> sums the data exactly, as fractions, and converts the exact mean to
  the nearest float. \<^verbatim>\<open>statistics.median\<close> returns the middle of the sorted data, and
  \<^verbatim>\<open>(data[i - 1] + data[i]) / 2\<close>, in float arithmetic, when the length is even.
\<close>

definition statistics_mean :: "real list \<Rightarrow> error + real" where
  "statistics_mean data =
     (if length data < 1 then Inl StatisticsError
      else Inr (double_round (sum_list data / real (length data))))"

definition statistics_median :: "real list \<Rightarrow> error + real" where
  "statistics_median data =
     (let d = sort data; n = length d in
      if n = 0 then Inl StatisticsError
      else if n mod 2 = 1 then Inr (d ! (n div 2))
      else Inr (double_round (double_round (d ! (n div 2 - 1) + d ! (n div 2)) / 2)))"

definition py_min :: "real list \<Rightarrow> error + real" where
  "py_min xs =
     (case xs of
        [] \<Rightarrow> Inl (ValueError ''min() arg is an empty sequence'')
      | x # rest \<Rightarrow> Inr (fold min rest x))"

definition py_max :: "real list \<Rightarrow> error + real" where
  "py_max xs =
     (case xs of
        [] \<Rightarrow> Inl (ValueError ''max() arg is an empty sequence'')
      | x # rest \<Rightarrow> Inr (fold max rest x))"

text \<open>Float division \<^verbatim>\<open>a / b\<close>.\<close>

definition py_truediv :: "real \<Rightarrow> real \<Rightarrow> error + real" where
  "py_truediv a b = (if b = 0 then Inl ZeroDivisionError else Inr (double_round (a / b)))"

text \<open>\<^verbatim>\<open>s.replace(old, new)\<close>: every non-overlapping occurrence, from the left.\<close>

function py_replace :: "string \<Rightarrow> string \<Rightarrow> string \<Rightarrow> string" where
  "py_replace old new s =
     (if old = [] then concat (map (\<lambda>c. new @ [c]) s) @ new
      else if s = [] then []
      else if take (length old) s = old then new @ py_replace old new (drop (length old) s)
      else hd s # py_replace old new (tl s))"
  by pat_completeness auto
termination
  by (relation "measure (\<lambda>(old, new, s). length s)") auto

declare py_replace.simps [simp del]

section \<open>pandas: reading, grouping, aggregating, writing\<close>

text \<open>
  \<^verbatim>\<open>pd.read_csv(path)\<close> returns the table of the file; with \<^verbatim>\<open>usecols\<close> it keeps the named
  columns, in the file's order, and raises when a named column is not in the file. A file
  that is not there and a file without any column make it raise. A file is given as the
  table that the parser reads from it: text that the parser refuses is not modelled.
\<close>

definition csv_table :: "frame option \<Rightarrow> string \<Rightarrow> string list option \<Rightarrow> error + frame" where
  "csv_table content path usecols =
     (case content of
        None \<Rightarrow> Inl (FileNotFoundError path)
      | Some tbl \<Rightarrow>
          if tbl = [] then Inl EmptyDataError
          else
            (case usecols of
               None \<Rightarrow> Inr tbl
             | Some cols \<Rightarrow>
                 if list_all (\<lambda>c. c \<in> set (map fst tbl)) cols
                 then Inr (filter (\<lambda>col. fst col \<in> set cols) tbl)
                 else Inl (ValueError ''Usecols do not match columns'')))"

definition read_csv :: "string \<Rightarrow> string list option \<Rightarrow> frame action" where
  "read_csv path usecols w =
     (csv_table (files w path) path usecols, w\<lparr>nreads := Suc (nreads w)\<rparr>)"

text \<open>The truth value of \<^verbatim>\<open>usecols\<close>: \<^verbatim>\<open>None\<close> and the empty list are false.\<close>

definition truthy :: "string list option \<Rightarrow> bool" where
  "truthy usecols = (case usecols of None \<Rightarrow> False | Some cols \<Rightarrow> cols \<noteq> [])"

text \<open>
  \<^verbatim>\<open>if usecols: df = pd.read_csv(csv_file, usecols=usecols)
  else: df = pd.read_csv(csv_file)\<close>
\<close>

definition load :: "string \<Rightarrow> string list option \<Rightarrow> frame action" where
  "load csv_file usecols =
     (if truthy usecols then read_csv csv_file usecols else read_csv csv_file None)"

fun dropna :: "cell list \<Rightarrow> real list" where
  "dropna [] = []"
| "dropna (None # cs) = dropna cs"
| "dropna (Some v # cs) = v # dropna cs"

text \<open>
  The aggregations \<^verbatim>\<open>'mean'\<close>, \<^verbatim>\<open>'median'\<close> and \<^verbatim>\<open>'var'\<close> of a group, on its values that are
  not missing, as the kernels of pandas compute them, in the order of the rows; \<open>r\<close> is the
  rounding of the arithmetic, \<open>double_round\<close> in pandas.

  \<^verbatim>\<open>group_mean\<close> adds the values with Kahan's compensated summation and divides the sum by
  their number; the mean of no value is NaN.
\<close>

definition kahan_add :: "(real \<Rightarrow> real) \<Rightarrow> real \<Rightarrow> real \<times> real \<Rightarrow> real \<times> real" where
  "kahan_add r val acc =
     (case acc of (sumx, compensation) \<Rightarrow>
        let y = r (val - compensation);
            t = r (sumx + y)
        in (t, r (r (t - sumx) - y)))"

definition agg_mean :: "(real \<Rightarrow> real) \<Rightarrow> real list \<Rightarrow> cell" where
  "agg_mean r vs =
     (if vs = [] then None
      else Some (r (fst (fold (kahan_add r) vs (0, 0)) / real (length vs))))"

text \<open>
  \<^verbatim>\<open>group_median\<close> takes the middle of the values in ascending order, and half the sum of
  the two middle ones when their number is even; the median of no value is NaN.
\<close>

definition agg_median :: "(real \<Rightarrow> real) \<Rightarrow> real list \<Rightarrow> cell" where
  "agg_median r vs =
     (let d = sort vs; n = length d in
      if n = 0 then None
      else if n mod 2 = 1 then Some (d ! (n div 2))
      else Some (r (r (d ! (n div 2) + d ! (n div 2 - 1)) / 2)))"

text \<open>
  \<^verbatim>\<open>group_var\<close> runs Welford's update of the count, the mean and the sum of squared
  deviations, and divides that sum by the count less \<^verbatim>\<open>ddof = 1\<close>; the result is NaN when
  the count is at most 1.
\<close>

definition welford_step ::
  "(real \<Rightarrow> real) \<Rightarrow> real \<Rightarrow> nat \<times> real \<times> real \<Rightarrow> nat \<times> real \<times> real" where
  "welford_step r val acc =
     (case acc of (nobs, mean, m2) \<Rightarrow>
        let nobs' = Suc nobs;
            mean' = r (mean + r (r (val - mean) / real nobs'));
            m2' = r (m2 + r (r (val - mean') * r (val - mean)))
        in (nobs', mean', m2'))"

definition agg_var :: "(real \<Rightarrow> real) \<Rightarrow> real list \<Rightarrow> cell" where
  "agg_var r vs =
     (case fold (welford_step r) vs (0, 0, 0) of (nobs, mean, m2) \<Rightarrow>
        if nobs \<le> 1 then None else Some (r (m2 / real (nobs - 1))))"

text \<open>
  \<^verbatim>\<open>groupby\<close> sorts the group keys ascending and drops the rows whose key is missing
  (the defaults \<^verbatim>\<open>sort=True\<close>, \<^verbatim>\<open>dropna=True\<close>).
\<close>

definition group_keys :: "(cell \<times> cell) list \<Rightarrow> real list" where
  "group_keys rows = sort (remdups (dropna (map fst rows)))"

definition group_values :: "(cell \<times> cell) list \<Rightarrow> cell \<Rightarrow> real list" where
  "group_values rows k = dropna (map snd (filter (\<lambda>r. fst r = k) rows))"

text \<open>
  \<^verbatim>\<open>df.groupby('passenger_count')['fare_amount'].agg(['mean', 'median', 'var'])\<close>:
  the index (the group keys) and the three columns.
\<close>

definition groupby_agg :: "frame \<Rightarrow> error + real list \<times> frame" where
  "groupby_agg df =
     (case map_of df ''passenger_count'' of
        None \<Rightarrow> Inl (KeyError ''passenger_count'')
      | Some ks \<Rightarrow>
          (case map_of df ''fare_amount'' of
             None \<Rightarrow> Inl (KeyError ''Column not found: fare_amount'')
           | Some vs \<Rightarrow>
               (let rows = zip ks vs; idx = group_keys rows in
                Inr (idx,
                  [(''mean'', map (\<lambda>k. agg_mean double_round (group_values rows (Some k))) idx),
                   (''median'', map (\<lambda>k. agg_median double_round (group_values rows (Some k))) idx),
                   (''var'', map (\<lambda>k. agg_var double_round (group_values rows (Some k))) idx)]))))"

text \<open>
  The timed compute phase: the aggregation, the renaming of the three columns, and
  \<^verbatim>\<open>reset_index()\<close>, which makes the index the first column.
\<close>

definition compute :: "frame \<Rightarrow> error + frame" where
  "compute df =
     (case groupby_agg df of
        Inl e \<Rightarrow> Inl e
      | Inr (idx, cols) \<Rightarrow>
          Inr ((''passenger_count'', map Some idx)
               # zip [''mean_fare'', ''median_fare'', ''variance_fare''] (map snd cols)))"

text \<open>\<^verbatim>\<open>df.to_csv(path, index=False)\<close>: the file now holds the frame, header first.\<close>

definition to_csv :: "string \<Rightarrow> frame \<Rightarrow> unit action" where
  "to_csv path df w =
     (if path \<in> set (unwritable w) then (Inl (OSError path), w)
      else (Inr (), w\<lparr>files := (files w)(path \<mapsto> df), writes := writes w @ [(path, df)]\<rparr>))"

text \<open>The header line and the data rows of a frame, as the file shows them.\<close>

definition header :: "frame \<Rightarrow> string list" where
  "header df = map fst df"

definition nrows :: "frame \<Rightarrow> nat" where
  "nrows df = (case df of [] \<Rightarrow> 0 | col # _ \<Rightarrow> length (snd col))"

definition cell_at :: "cell list \<Rightarrow> nat \<Rightarrow> cell" where
  "cell_at col i = (if i < length col then col ! i else None)"

definition data_rows :: "frame \<Rightarrow> cell list list" where
  "data_rows df = map (\<lambda>i. map (\<lambda>col. cell_at (snd col) i) df) [0..<nrows df]"

section \<open>The Local-Compute Path: \<^verbatim>\<open>benchmark_pandas_approach\<close>\<close>

text \<open>
  The loop variables \<^verbatim>\<open>load_times\<close>, \<^verbatim>\<open>compute_times\<close>, \<^verbatim>\<open>total_times\<close> and \<^verbatim>\<open>results_df\<close>
  (\<^verbatim>\<open>query_times\<close>, \<^verbatim>\<open>save_times\<close>, \<^verbatim>\<open>total_times\<close>, \<^verbatim>\<open>results_df\<close> in the other path).
\<close>

type_synonym samples = "real list \<times> real list \<times> real list \<times> frame option"

text \<open>The dictionary that the function returns.\<close>

record pandas_stats =
  load_times :: "real list"
  compute_times :: "real list"
  total_times :: "real list"
  load_mean :: real
  compute_mean :: real
  total_mean :: real
  load_median :: real
  compute_median :: real
  total_median :: real
  load_min :: real
  compute_min :: real
  total_min :: real
  load_max :: real
  compute_max :: real
  total_max :: real
  results :: "frame option"

text \<open>One warmup iteration: load and aggregate, nothing timed, nothing kept.\<close>

definition pandas_warmup_iteration :: "string \<Rightarrow> string list option \<Rightarrow> nat \<Rightarrow> unit \<Rightarrow> unit action" where
  "pandas_warmup_iteration csv_file usecols i u =
     and_then (load csv_file usecols) (\<lambda>df.
     and_then (from_result (groupby_agg df)) (\<lambda>discarded.
     succeed ()))"

text \<open>\<^verbatim>\<open>if warmup > 0: for _ in range(warmup): ...\<close>\<close>

definition pandas_warmup :: "string \<Rightarrow> string list option \<Rightarrow> int \<Rightarrow> unit action" where
  "pandas_warmup csv_file usecols warmup =
     (if warmup > 0 then for_loop (py_range warmup) (pandas_warmup_iteration csv_file usecols) ()
      else succeed ())"

text \<open>One measured iteration, \<open>i\<close> the loop index.\<close>

definition pandas_iteration ::
  "string \<Rightarrow> string \<Rightarrow> string list option \<Rightarrow> int \<Rightarrow> nat \<Rightarrow> samples \<Rightarrow> samples action" where
  "pandas_iteration csv_file output_file usecols iterations i acc =
     (case acc of (loads, computes, totals, results_df) \<Rightarrow>
     and_then perf_counter (\<lambda>load_start.
     and_then (load csv_file usecols) (\<lambda>df.
     and_then perf_counter (\<lambda>load_end.
     and_then perf_counter (\<lambda>compute_start.
     and_then (from_result (compute df)) (\<lambda>grouped.
     and_then perf_counter (\<lambda>compute_end.
       let load_elapsed = double_round (load_end - load_start);
           compute_elapsed = double_round (compute_end - compute_start);
           total_elapsed = double_round (load_elapsed + compute_elapsed);
           loads' = loads @ [load_elapsed];
           computes' = computes @ [compute_elapsed];
           totals' = totals @ [total_elapsed]
       in if int i = iterations - 1
          then and_then (to_csv output_file grouped) (\<lambda>u.
               succeed (loads', computes', totals', Some grouped))
          else succeed (loads', computes', totals', results_df))))))))"

text \<open>The returned dictionary; its entries are evaluated in the order written.\<close>

definition pandas_summary :: "samples \<Rightarrow> error + pandas_stats" where
  "pandas_summary acc =
     (case acc of (loads, computes, totals, results_df) \<Rightarrow>
     bind_result (statistics_mean loads) (\<lambda>lmean.
     bind_result (statistics_mean computes) (\<lambda>cmean.
     bind_result (statistics_mean totals) (\<lambda>tmean.
     bind_result (statistics_median loads) (\<lambda>lmedian.
     bind_result (statistics_median computes) (\<lambda>cmedian.
     bind_result (statistics_median totals) (\<lambda>tmedian.
     bind_result (py_min loads) (\<lambda>lmin.
     bind_result (py_min computes) (\<lambda>cmin.
     bind_result (py_min totals) (\<lambda>tmin.
     bind_result (py_max loads) (\<lambda>lmax.
     bind_result (py_max computes) (\<lambda>cmax.
     bind_result (py_max totals) (\<lambda>tmax.
     Inr \<lparr>load_times = loads, compute_times = computes, total_times = totals,
          load_mean = lmean, compute_mean = cmean, total_mean = tmean,
          load_median = lmedian, compute_median = cmedian, total_median = tmedian,
          load_min = lmin, compute_min = cmin, total_min = tmin,
          load_max = lmax, compute_max = cmax, total_max = tmax,
          results = results_df\<rparr>)))))))))))))"

definition pandas_measure ::
  "string \<Rightarrow> string \<Rightarrow> string list option \<Rightarrow> int \<Rightarrow> samples action" where
  "pandas_measure csv_file output_file usecols iterations =
     for_loop (py_range iterations) (pandas_iteration csv_file output_file usecols iterations)
       ([], [], [], None)"

definition benchmark_pandas_approach ::
  "string \<Rightarrow> string \<Rightarrow> string list option \<Rightarrow> int \<Rightarrow> int \<Rightarrow> pandas_stats action" where
  "benchmark_pandas_approach csv_file output_file usecols iterations warmup =
     and_then (pandas_warmup csv_file usecols warmup) (\<lambda>u.
     and_then (pandas_measure csv_file output_file usecols iterations) (\<lambda>acc.
     from_result (pandas_summary acc)))"

section \<open>The Remote-Aggregation Path: \<^verbatim>\<open>benchmark_clickhouse_approach\<close>\<close>

text \<open>
  The engine is a collaborator. Of the query
  \<^verbatim>\<open>SELECT passenger_count, avg(fare_amount), quantile(0.5)(fare_amount),
  varSamp(fare_amount) FROM db.table GROUP BY passenger_count ORDER BY passenger_count\<close>
  the model fixes what SQL fixes: one result row per distinct key, a NULL key being a key of
  its own; the rows ordered by key ascending, NULL last; each aggregate applied to the
  group's values that are not NULL. How the engine computes its three aggregates is its own
  business (its \<^verbatim>\<open>quantile\<close> is approximate): they are the fields of the client.
\<close>

record client =
  avg :: "real list \<Rightarrow> cell"
  quantile_half :: "real list \<Rightarrow> cell"
  varSamp :: "real list \<Rightarrow> cell"

definition sql_group_keys :: "(cell \<times> cell) list \<Rightarrow> cell list" where
  "sql_group_keys rows =
     map Some (group_keys rows) @ (if None \<in> set (map fst rows) then [None] else [])"

definition run_query :: "client \<Rightarrow> (cell \<times> cell) list \<Rightarrow> cell list list" where
  "run_query cl rows =
     map (\<lambda>k. [k, avg cl (group_values rows k), quantile_half cl (group_values rows k),
               varSamp cl (group_values rows k)])
         (sql_group_keys rows)"

text \<open>\<^verbatim>\<open>client.query(query).result_rows\<close>\<close>

definition client_query :: "client \<Rightarrow> string \<Rightarrow> string \<Rightarrow> cell list list action" where
  "client_query cl database table w =
     (let w' = w\<lparr>nqueries := Suc (nqueries w)\<rparr> in
      case remote w database table (nqueries w) of
        Inl e \<Rightarrow> (Inl e, w')
      | Inr rows \<Rightarrow> (Inr (run_query cl rows), w'))"

text \<open>\<^verbatim>\<open>pd.DataFrame(rows, columns=names)\<close>: raises when a row has another width.\<close>

definition data_frame :: "cell list list \<Rightarrow> string list \<Rightarrow> error + frame" where
  "data_frame rows names =
     (if list_all (\<lambda>r. length r = length names) rows
      then Inr (map (\<lambda>j. (names ! j, map (\<lambda>r. r ! j) rows)) [0..<length names])
      else Inl (ValueError ''columns passed, passed data had another width''))"

record clickhouse_stats =
  query_times :: "real list"
  save_times :: "real list"
  ch_total_times :: "real list"
  query_mean :: real
  save_mean :: real
  ch_total_mean :: real
  query_median :: real
  save_median :: real
  ch_total_median :: real
  query_min :: real
  save_min :: real
  ch_total_min :: real
  query_max :: real
  save_max :: real
  ch_total_max :: real
  ch_mean :: real
  ch_results :: "frame option"

definition clickhouse_warmup_iteration :: "client \<Rightarrow> string \<Rightarrow> string \<Rightarrow> nat \<Rightarrow> unit \<Rightarrow> unit action" where
  "clickhouse_warmup_iteration cl database table i u =
     and_then (client_query cl database table) (\<lambda>discarded. succeed ())"

definition clickhouse_warmup :: "client \<Rightarrow> string \<Rightarrow> string \<Rightarrow> int \<Rightarrow> unit action" where
  "clickhouse_warmup cl database table warmup =
     (if warmup > 0
      then for_loop (py_range warmup) (clickhouse_warmup_iteration cl database table) ()
      else succeed ())"

definition clickhouse_iteration ::
  "client \<Rightarrow> string \<Rightarrow> string \<Rightarrow> string \<Rightarrow> int \<Rightarrow> nat \<Rightarrow> samples \<Rightarrow> samples action" where
  "clickhouse_iteration cl database table output_file iterations i acc =
     (case acc of (queries, saves, totals, old_df) \<Rightarrow>
     and_then perf_counter (\<lambda>query_start.
     and_then (client_query cl database table) (\<lambda>result_rows.
     and_then perf_counter (\<lambda>query_end.
     and_then perf_counter (\<lambda>save_start.
     and_then (from_result (data_frame result_rows
         [''passenger_count'', ''mean_fare'', ''median_fare'', ''variance_fare''])) (\<lambda>results_df.
     and_then (if int i = iterations - 1 then to_csv output_file results_df else succeed ()) (\<lambda>u.
     and_then perf_counter (\<lambda>save_end.
       let query_elapsed = double_round (query_end - query_start);
           save_elapsed = double_round (save_end - save_start);
           total_elapsed = double_round (query_elapsed + save_elapsed)
       in succeed (queries @ [query_elapsed], saves @ [save_elapsed],
                   totals @ [total_elapsed], Some results_df)))))))))"

definition clickhouse_summary :: "samples \<Rightarrow> error + clickhouse_stats" where
  "clickhouse_summary acc =
     (case acc of (queries, saves, totals, results_df) \<Rightarrow>
     bind_result (statistics_mean queries) (\<lambda>qmean.
     bind_result (statistics_mean saves) (\<lambda>smean.
     bind_result (statistics_mean totals) (\<lambda>tmean.
     bind_result (statistics_median queries) (\<lambda>qmedian.
     bind_result (statistics_median saves) (\<lambda>smedian.
     bind_result (statistics_median totals) (\<lambda>tmedian.
     bind_result (py_min queries) (\<lambda>qmin.
     bind_result (py_min saves) (\<lambda>smin.
     bind_result (py_min totals) (\<lambda>tmin.
     bind_result (py_max queries) (\<lambda>qmax.
     bind_result (py_max saves) (\<lambda>smax.
     bind_result (py_max totals) (\<lambda>tmax.
     bind_result (statistics_mean queries) (\<lambda>compat_mean.
     Inr \<lparr>query_times = queries, save_times = saves, ch_total_times = totals,
          query_mean = qmean, save_mean = smean, ch_total_mean = tmean,
          query_median = qmedian, save_median = smedian, ch_total_median = tmedian,
          query_min = qmin, save_min = smin, ch_total_min = tmin,
          query_max = qmax, save_max = smax, ch_total_max = tmax,
          ch_mean = compat_mean, ch_results = results_df\<rparr>))))))))))))))"

definition clickhouse_measure ::
  "client \<Rightarrow> string \<Rightarrow> string \<Rightarrow> string \<Rightarrow> int \<Rightarrow> samples action" where
  "clickhouse_measure cl database table output_file iterations =
     for_loop (py_range iterations)
       (clickhouse_iteration cl database table output_file iterations) ([], [], [], None)"

definition benchmark_clickhouse_approach ::
  "client \<Rightarrow> string \<Rightarrow> string \<Rightarrow> string \<Rightarrow> int \<Rightarrow> int \<Rightarrow> clickhouse_stats action" where
  "benchmark_clickhouse_approach cl database table output_file iterations warmup =
     and_then (clickhouse_warmup cl database table warmup) (\<lambda>u.
     and_then (clickhouse_measure cl database table output_file iterations) (\<lambda>acc.
     from_result (clickhouse_summary acc)))"

section \<open>The comparison: \<^verbatim>\<open>main\<close>\<close>

text \<open>
  The parsed command line, and \<^verbatim>\<open>main\<close> from the point where the client is connected:
  the three benchmarks in turn, then the speedup and time-saved figures it prints.
\<close>

record args =
  args_database :: string
  args_table :: string
  args_csv_input :: string
  args_csv_output_pandas :: string
  args_csv_output_clickhouse :: string
  args_iterations :: int
  args_warmup :: int

record report =
  speedup_selective :: real
  speedup_full :: real
  saved_selective :: real
  saved_full :: real

definition speedups :: "pandas_stats \<Rightarrow> pandas_stats \<Rightarrow> clickhouse_stats \<Rightarrow> error + report" where
  "speedups pandas_selective_stats pandas_full_stats clickhouse_stats =
     bind_result (py_truediv (total_mean pandas_selective_stats) (ch_total_mean clickhouse_stats))
       (\<lambda>selective.
     bind_result (py_truediv (total_mean pandas_full_stats) (ch_total_mean clickhouse_stats))
       (\<lambda>full.
     Inr \<lparr>speedup_selective = selective, speedup_full = full,
          saved_selective =
            double_round (total_mean pandas_selective_stats - ch_total_mean clickhouse_stats),
          saved_full =
            double_round (total_mean pandas_full_stats - ch_total_mean clickhouse_stats)\<rparr>))"

definition main :: "client \<Rightarrow> args \<Rightarrow> report action" where
  "main cl a =
     and_then (benchmark_pandas_approach (args_csv_input a) (args_csv_output_pandas a)
                 (Some [''fare_amount'', ''passenger_count''])
                 (args_iterations a) (args_warmup a)) (\<lambda>pandas_selective_stats.
     and_then (benchmark_pandas_approach (args_csv_input a)
                 (py_replace ''.csv'' ''_full.csv'' (args_csv_output_pandas a))
                 None (args_iterations a) (args_warmup a)) (\<lambda>pandas_full_stats.
     and_then (benchmark_clickhouse_approach cl (args_database a) (args_table a)
                 (args_csv_output_clickhouse a) (args_iterations a) (args_warmup a))
       (\<lambda>clickhouse_stats.
     from_result (speedups pandas_selective_stats pandas_full_stats clickhouse_stats))))"

section \<open>Notions used in the statements and in the proofs\<close>

text \<open>
  Two worlds that differ at most in the counters of clock readings, reads and queries: the
  clock, the files, the write log and the remote tables are the same.
\<close>

definition outside_unchanged :: "world \<Rightarrow> world \<Rightarrow> bool" where
  "outside_unchanged w w' \<longleftrightarrow>
     ticks w' = ticks w \<and> files w' = files w \<and> unwritable w' = unwritable w \<and>
     writes w' = writes w \<and> remote w' = remote w"

text \<open>
  The third list of samples holds the sums of the two phases, entry by entry, each sum a
  float addition.
\<close>

definition sums_of_phases :: "samples \<Rightarrow> bool" where
  "sums_of_phases s =
     (case s of (l, c, t, d) \<Rightarrow>
        length l = length c \<and> t = map2 (\<lambda>a b. double_round (a + b)) l c)"

text \<open>
  The middle of the values in ascending order, and half the sum of the two middle ones, in
  float arithmetic, when their number is even.
\<close>

definition middle :: "real list \<Rightarrow> real" where
  "middle xs =
     (let d = sort xs; n = length d in
      if n mod 2 = 1 then d ! (n div 2)
      else double_round (double_round (d ! (n div 2 - 1) + d ! (n div 2)) / 2))"


text \<open>
  The scenario of the specification: three trips, as a CSV file with one more column and as
  the rows of the remote table; and a world that holds both.
\<close>

definition scenario_csv :: frame where
  "scenario_csv =
     [(''trip_distance'', [Some 3, Some 4, Some 5]),
      (''passenger_count'', [Some 1, Some 1, Some 2]),
      (''fare_amount'', [Some 10, Some 20, Some 15])]"

definition scenario_rows :: "(cell \<times> cell) list" where
  "scenario_rows = [(Some 1, Some 10), (Some 1, Some 20), (Some 2, Some 15)]"

definition scenario_world :: world where
  "scenario_world =
     \<lparr>ticks = (\<lambda>n. real n), nticks = 0,
      files = [''data/nyc_taxi_data.csv'' \<mapsto> scenario_csv], nreads = 0,
      unwritable = [], writes = [],
      remote = (\<lambda>database table k. Inr scenario_rows), nqueries = 0\<rparr>"

text \<open>An engine whose three aggregates return what the kernels of pandas return.\<close>

definition exact_client :: client where
  "exact_client =
     \<lparr>avg = agg_mean double_round, quantile_half = agg_median double_round,
      varSamp = agg_var double_round\<rparr>"

text \<open>The same world with a remote engine that answers two queries and then is unreachable.\<close>

definition flaky_world :: world where
  "flaky_world =
     scenario_world\<lparr>remote := (\<lambda>database table k.
        if k < 2 then Inr scenario_rows else Inl (ClientError ''unreachable''))\<rparr>"

text \<open>
  The command line with every option at its default, and the scenario world with a clock too
  coarse to see the run: every reading is the same.
\<close>

definition default_args :: args where
  "default_args =
     \<lparr>args_database = ''nyc_taxi'', args_table = ''trips_small'',
      args_csv_input = ''data/nyc_taxi_data.csv'',
      args_csv_output_pandas = ''results_pandas.csv'',
      args_csv_output_clickhouse = ''results_clickhouse.csv'',
      args_iterations = 5, args_warmup = 1\<rparr>"

definition frozen_world :: world where
  "frozen_world = scenario_world\<lparr>ticks := (\<lambda>n. 0)\<rparr>"

text \<open>Two worlds with the same clock, the same unwritable paths and the same remote tables.\<close>

definition same_surroundings :: "world \<Rightarrow> world \<Rightarrow> bool" where
  "same_surroundings w w' \<longleftrightarrow>
     ticks w' = ticks w \<and> unwritable w' = unwritable w \<and> remote w' = remote w"





section \<open>Double arithmetic: the exact cases\<close>

lemma round_half_even_int: "round_half_even (of_int m) = m"
  by (simp add: round_half_even_def)

lemma two_powr_neg: "2 powr of_int (- int n) = 1 / (2::real) ^ n"
  by (simp add: powr_minus powr_realpow inverse_eq_divide)

lemma double_round_int:
  assumes "x \<in> \<int>" and "\<bar>x\<bar> < 9007199254740992"
  shows "double_round x = x"
proof (cases "x = 0")
  case True
  then show ?thesis by (simp add: double_round_def)
next
  case False
  from assms(1) obtain k :: int where k: "x = of_int k" by (auto elim: Ints_cases)
  with False have "k \<noteq> 0" by simp
  then have one: "1 \<le> \<bar>x\<bar>" unfolding k by (simp flip: of_int_abs add: )
  let ?e = "\<lfloor>log 2 \<bar>x\<bar>\<rfloor>"
  from one have "0 \<le> log 2 \<bar>x\<bar>" by simp
  then have e0: "0 \<le> ?e" by simp
  have "\<bar>x\<bar> < 2 powr 53" using assms(2) by simp
  with one have "log 2 \<bar>x\<bar> < 53"
    by (simp add: log_less_iff)
  then have e52: "?e \<le> 52" by (simp add: floor_le_iff)
  let ?n = "nat (52 - ?e)"
  from e0 have q: "max ?e (- 1022) - 52 = - int ?n" using e52 by simp
  have u: "2 powr of_int (- int ?n) = 1 / (2::real) ^ ?n"
    by (rule two_powr_neg)
  have "x / (1 / (2::real) ^ ?n) = of_int (k * 2 ^ ?n)" by (simp add: k)
  then have "round_half_even (x / (1 / (2::real) ^ ?n)) = k * 2 ^ ?n"
    by (simp only: round_half_even_int)
  with False show ?thesis
    by (simp only: double_round_def q u Let_def if_False) (simp add: k)
qed

lemma double_round_0 [simp]: "double_round 0 = 0"
  by (simp add: double_round_def)

lemma double_round_1 [simp]: "double_round 1 = 1"
  by (rule double_round_int) simp_all

lemma double_round_numeral [simp]:
  "numeral n < (9007199254740992::real) \<Longrightarrow> double_round (numeral n) = numeral n"
  by (rule double_round_int) simp_all

section \<open>The kernels in exact arithmetic\<close>















section \<open>Sequencing and loops\<close>

lemma outside_unchanged_refl: "outside_unchanged w w"
  by (simp add: outside_unchanged_def)

lemma outside_unchanged_trans:
  "outside_unchanged w w1 \<Longrightarrow> outside_unchanged w1 w2 \<Longrightarrow> outside_unchanged w w2"
  by (simp add: outside_unchanged_def)

lemma load_eq:
  "load csv_file usecols w =
     (csv_table (files w csv_file) csv_file (if truthy usecols then usecols else None),
      w\<lparr>nreads := Suc (nreads w)\<rparr>)"
  by (simp add: load_def read_csv_def)

lemma for_loop_append:
  "for_loop (xs @ ys) body s w =
     (case for_loop xs body s w of
        (Inl e, w') \<Rightarrow> (Inl e, w')
      | (Inr s', w') \<Rightarrow> for_loop ys body s' w')"
  by (induction xs arbitrary: s w) (auto split: prod.splits sum.splits)

lemma for_loop_world_inv:
  assumes "for_loop xs body s w = (r, w')" and "P w"
    and "\<And>i s w r w'. i \<in> set xs \<Longrightarrow> P w \<Longrightarrow> body i s w = (r, w') \<Longrightarrow> P w'"
  shows "P w'"
  using assms
proof (induction xs arbitrary: s w)
  case Nil
  then show ?case by simp
next
  case (Cons i rest)
  obtain r1 w1 where b: "body i s w = (r1, w1)" by (cases "body i s w")
  have p1: "P w1" using Cons.prems(2,3) b by (meson list.set_intros(1))
  show ?case
  proof (cases r1)
    case (Inl e)
    with Cons.prems(1) b have "w' = w1" by simp
    with p1 show ?thesis by simp
  next
    case (Inr s1)
    with Cons.prems(1) b have "for_loop rest body s1 w1 = (r, w')" by simp
    then show ?thesis
      using Cons.IH p1 Cons.prems(3) by (meson list.set_intros(2))
  qed
qed

lemma for_loop_state_inv:
  assumes "for_loop xs body s w = (Inr s', w')" and "Q s"
    and "\<And>i s w s' w'. i \<in> set xs \<Longrightarrow> Q s \<Longrightarrow> body i s w = (Inr s', w') \<Longrightarrow> Q s'"
  shows "Q s'"
  using assms
proof (induction xs arbitrary: s w)
  case Nil
  then show ?case by simp
next
  case (Cons i rest)
  obtain r1 w1 where b: "body i s w = (r1, w1)" by (cases "body i s w")
  show ?case
  proof (cases r1)
    case (Inl e)
    with Cons.prems(1) b show ?thesis by simp
  next
    case (Inr s1)
    with Cons.prems(1) b have l: "for_loop rest body s1 w1 = (Inr s', w')" by simp
    have "Q s1" using Cons.prems(2,3) b Inr by (meson list.set_intros(1))
    then show ?thesis
      using Cons.IH l Cons.prems(3) by (meson list.set_intros(2))
  qed
qed

lemma pandas_iteration_eq:
  "pandas_iteration csv_file output_file usecols iterations i (l, c, t, d) w =
     (let n = nticks w;
          w1 = w\<lparr>nticks := Suc n, nreads := Suc (nreads w)\<rparr>;
          w3 = w\<lparr>nticks := n + 3, nreads := Suc (nreads w)\<rparr>;
          w4 = w\<lparr>nticks := n + 4, nreads := Suc (nreads w)\<rparr>;
          le = double_round (ticks w (n + 1) - ticks w n);
          ce = double_round (ticks w (n + 3) - ticks w (n + 2))
      in case csv_table (files w csv_file) csv_file (if truthy usecols then usecols else None) of
           Inl e \<Rightarrow> (Inl e, w1)
         | Inr df \<Rightarrow>
             (case compute df of
                Inl e \<Rightarrow> (Inl e, w3)
              | Inr grouped \<Rightarrow>
                  if int i = iterations - 1
                  then if output_file \<in> set (unwritable w) then (Inl (OSError output_file), w4)
                       else (Inr (l @ [le], c @ [ce], t @ [double_round (le + ce)], Some grouped),
                             w4\<lparr>files := (files w)(output_file \<mapsto> grouped),
                                writes := writes w @ [(output_file, grouped)]\<rparr>)
                  else (Inr (l @ [le], c @ [ce], t @ [double_round (le + ce)], d), w4)))"
  by (simp add: pandas_iteration_def and_then_def perf_counter_def load_eq from_result_def
      succeed_def to_csv_def Let_def eval_nat_numeral split: sum.splits)

lemma clickhouse_iteration_eq:
  "clickhouse_iteration cl database table output_file iterations i (q, sv, t, d) w =
     (let n = nticks w;
          w1 = w\<lparr>nticks := Suc n, nqueries := Suc (nqueries w)\<rparr>;
          w3 = w\<lparr>nticks := n + 3, nqueries := Suc (nqueries w)\<rparr>;
          w4 = w\<lparr>nticks := n + 4, nqueries := Suc (nqueries w)\<rparr>;
          qe = double_round (ticks w (n + 1) - ticks w n);
          se = double_round (ticks w (n + 3) - ticks w (n + 2))
      in case remote w database table (nqueries w) of
           Inl e \<Rightarrow> (Inl e, w1)
         | Inr rows \<Rightarrow>
             (case data_frame (run_query cl rows)
                     [''passenger_count'', ''mean_fare'', ''median_fare'', ''variance_fare''] of
                Inl e \<Rightarrow> (Inl e, w3)
              | Inr results_df \<Rightarrow>
                  if int i = iterations - 1
                  then if output_file \<in> set (unwritable w) then (Inl (OSError output_file), w3)
                       else (Inr (q @ [qe], sv @ [se], t @ [double_round (qe + se)], Some results_df),
                             w4\<lparr>files := (files w)(output_file \<mapsto> results_df),
                                writes := writes w @ [(output_file, results_df)]\<rparr>)
                  else (Inr (q @ [qe], sv @ [se], t @ [double_round (qe + se)], Some results_df), w4)))"
  by (simp add: clickhouse_iteration_def and_then_def perf_counter_def client_query_def
      from_result_def succeed_def to_csv_def Let_def eval_nat_numeral split: sum.splits)


lemma and_then_Inr:
  assumes "and_then m f w = (Inr y, w')"
  obtains x w1 where "m w = (Inr x, w1)" and "f x w1 = (Inr y, w')"
  using assms by (auto simp: and_then_def split: prod.splits sum.splits)

lemma pandas_iteration_frame:
  assumes "pandas_iteration csv_file output_file usecols iterations i s w = (r, w')"
    and "int i \<noteq> iterations - 1"
  shows "outside_unchanged w w'"
proof -
  obtain l c t d where s: "s = (l, c, t, d)" by (cases s)
  show ?thesis
    using assms unfolding s pandas_iteration_eq
    by (auto simp: Let_def outside_unchanged_def split: sum.splits)
qed

lemma pandas_iteration_samples:
  assumes "pandas_iteration csv_file output_file usecols iterations i (l, c, t, d) w = (Inr s', w')"
  shows "\<exists>le ce d'. s' = (l @ [le], c @ [ce], t @ [double_round (le + ce)], d')"
  using assms unfolding pandas_iteration_eq
  by (auto simp: Let_def split: sum.splits if_splits)

lemma pandas_loop_lengths:
  assumes "for_loop xs (pandas_iteration csv_file output_file usecols iterations) (l, c, t, d) w
           = (Inr (l', c', t', d'), w')"
  shows "length l' = length l + length xs \<and> length c' = length c + length xs
         \<and> length t' = length t + length xs"
  using assms
proof (induction xs arbitrary: l c t d w)
  case Nil
  then show ?case by simp
next
  case (Cons i rest)
  obtain r1 w1 where b:
    "pandas_iteration csv_file output_file usecols iterations i (l, c, t, d) w = (r1, w1)"
    by (cases "pandas_iteration csv_file output_file usecols iterations i (l, c, t, d) w")
  show ?case
  proof (cases r1)
    case (Inl e)
    with Cons.prems b show ?thesis by simp
  next
    case (Inr s1)
    with b obtain le ce d1 where s1: "s1 = (l @ [le], c @ [ce], t @ [double_round (le + ce)], d1)"
      using pandas_iteration_samples by blast
    from Cons.prems b Inr s1
    have "for_loop rest (pandas_iteration csv_file output_file usecols iterations)
            (l @ [le], c @ [ce], t @ [double_round (le + ce)], d1) w1 = (Inr (l', c', t', d'), w')"
      by simp
    from Cons.IH [OF this] show ?thesis by simp
  qed
qed

lemma pandas_loop_sums:
  assumes "for_loop xs (pandas_iteration csv_file output_file usecols iterations) s w = (Inr s', w')"
    and "sums_of_phases s"
  shows "sums_of_phases s'"
proof (rule for_loop_state_inv [OF assms(1), where Q = sums_of_phases, OF assms(2)])
  fix i s w s' w'
  assume q: "sums_of_phases s"
    and b: "pandas_iteration csv_file output_file usecols iterations i s w = (Inr s', w')"
  obtain l c t d where s: "s = (l, c, t, d)" by (cases s)
  from b s obtain le ce d' where "s' = (l @ [le], c @ [ce], t @ [double_round (le + ce)], d')"
    using pandas_iteration_samples by blast
  with q s show "sums_of_phases s'" by (simp add: sums_of_phases_def)
qed

lemma py_range_last: "1 \<le> n \<Longrightarrow> py_range n = [0..<nat n - 1] @ [nat n - 1]"
proof -
  assume "1 \<le> n"
  then have "nat n = Suc (nat n - 1)" by simp
  then have "[0..<nat n] = [0..<nat n - 1] @ [nat n - 1]"
    by (metis upt_Suc_append zero_le)
  then show ?thesis by (simp add: py_range_def)
qed

lemma pandas_prefix_frame:
  assumes "for_loop [0..<nat n - 1] (pandas_iteration csv_file output_file usecols n) s w = (r, w')"
  shows "outside_unchanged w w'"
proof (rule for_loop_world_inv [OF assms, where P = "outside_unchanged w"])
  show "outside_unchanged w w" by (rule outside_unchanged_refl)
next
  fix i s wa r wb
  assume i: "i \<in> set [0..<nat n - 1]" and p: "outside_unchanged w wa"
    and b: "pandas_iteration csv_file output_file usecols n i s wa = (r, wb)"
  from i have "int i \<noteq> n - 1" by auto
  from pandas_iteration_frame [OF b this] p show "outside_unchanged w wb"
    by (rule outside_unchanged_trans [rotated])
qed

lemma pandas_measure_Inr:
  assumes m: "pandas_measure csv_file output_file usecols n w = (Inr (l, c, t, d), w')"
    and n: "1 \<le> n"
  shows "\<exists>df g. csv_table (files w csv_file) csv_file (if truthy usecols then usecols else None) = Inr df
           \<and> compute df = Inr g \<and> d = Some g
           \<and> writes w' = writes w @ [(output_file, g)]
           \<and> files w' = (files w)(output_file \<mapsto> g)"
proof -
  let ?body = "pandas_iteration csv_file output_file usecols n"
  from m have run: "for_loop ([0..<nat n - 1] @ [nat n - 1]) ?body ([], [], [], None) w
      = (Inr (l, c, t, d), w')"
    by (simp add: pandas_measure_def py_range_last [OF n])
  obtain r1 w1 where pre: "for_loop [0..<nat n - 1] ?body ([], [], [], None) w = (r1, w1)"
    by (cases "for_loop [0..<nat n - 1] ?body ([], [], [], None) w")
  from pandas_prefix_frame [OF pre] have same: "outside_unchanged w w1" .
  from run pre obtain s1 where r1: "r1 = Inr s1"
    by (cases r1) (auto simp: for_loop_append)
  obtain l1 c1 t1 d1 where s1: "s1 = (l1, c1, t1, d1)" by (cases s1)
  from run pre r1 s1 have "for_loop [nat n - 1] ?body (l1, c1, t1, d1) w1 = (Inr (l, c, t, d), w')"
    by (simp add: for_loop_append)
  then have last: "?body (nat n - 1) (l1, c1, t1, d1) w1 = (Inr (l, c, t, d), w')"
    by (auto split: prod.splits sum.splits)
  from n have idx: "int (nat n - 1) = n - 1" by simp
  from last idx same show ?thesis
    unfolding pandas_iteration_eq
    by (auto simp: Let_def outside_unchanged_def split: sum.splits if_splits)
qed


lemma statistics_mean_eq:
  "statistics_mean xs = (if xs = [] then Inl StatisticsError else Inr (double_round (sum_list xs / real (length xs))))"
  by (cases xs) (simp_all add: statistics_mean_def)

lemma statistics_median_eq:
  "statistics_median xs = (if xs = [] then Inl StatisticsError else Inr (middle xs))"
  by (cases xs) (simp_all add: statistics_median_def middle_def Let_def)

lemma fold_min_Min: "fold min rest (x::real) = Min (set (x # rest))"
  by (rule Min.set_eq_fold [symmetric])

lemma fold_max_Max: "fold max rest (x::real) = Max (set (x # rest))"
  by (rule Max.set_eq_fold [symmetric])

lemma py_min_eq:
  "py_min xs = (if xs = [] then Inl (ValueError ''min() arg is an empty sequence'') else Inr (Min (set xs)))"
  by (cases xs) (simp_all add: py_min_def fold_min_Min)

lemma py_max_eq:
  "py_max xs = (if xs = [] then Inl (ValueError ''max() arg is an empty sequence'') else Inr (Max (set xs)))"
  by (cases xs) (simp_all add: py_max_def fold_max_Max)

lemma pandas_summary_eq:
  "pandas_summary (l, c, t, d) =
     (if l = [] \<or> c = [] \<or> t = [] then Inl StatisticsError
      else Inr \<lparr>load_times = l, compute_times = c, total_times = t,
          load_mean = double_round (sum_list l / real (length l)), compute_mean = double_round (sum_list c / real (length c)),
          total_mean = double_round (sum_list t / real (length t)),
          load_median = middle l, compute_median = middle c, total_median = middle t,
          load_min = Min (set l), compute_min = Min (set c), total_min = Min (set t),
          load_max = Max (set l), compute_max = Max (set c), total_max = Max (set t),
          results = d\<rparr>)"
  by (simp add: pandas_summary_def bind_result_def statistics_mean_eq statistics_median_eq
      py_min_eq py_max_eq)

lemma clickhouse_summary_eq:
  "clickhouse_summary (q, sv, t, d) =
     (if q = [] \<or> sv = [] \<or> t = [] then Inl StatisticsError
      else Inr \<lparr>query_times = q, save_times = sv, ch_total_times = t,
          query_mean = double_round (sum_list q / real (length q)), save_mean = double_round (sum_list sv / real (length sv)),
          ch_total_mean = double_round (sum_list t / real (length t)),
          query_median = middle q, save_median = middle sv, ch_total_median = middle t,
          query_min = Min (set q), save_min = Min (set sv), ch_total_min = Min (set t),
          query_max = Max (set q), save_max = Max (set sv), ch_total_max = Max (set t),
          ch_mean = double_round (sum_list q / real (length q)), ch_results = d\<rparr>)"
  by (simp add: clickhouse_summary_def bind_result_def statistics_mean_eq statistics_median_eq
      py_min_eq py_max_eq)

lemma pandas_warmup_iteration_eq:
  "pandas_warmup_iteration csv_file usecols i u w =
     (case csv_table (files w csv_file) csv_file (if truthy usecols then usecols else None) of
        Inl e \<Rightarrow> (Inl e, w\<lparr>nreads := Suc (nreads w)\<rparr>)
      | Inr df \<Rightarrow>
          (case groupby_agg df of
             Inl e \<Rightarrow> (Inl e, w\<lparr>nreads := Suc (nreads w)\<rparr>)
           | Inr g \<Rightarrow> (Inr (), w\<lparr>nreads := Suc (nreads w)\<rparr>)))"
  by (simp add: pandas_warmup_iteration_def and_then_def load_eq from_result_def succeed_def
      split: sum.splits)

lemma pandas_warmup_frame:
  assumes "pandas_warmup csv_file usecols warmup w = (r, w')"
  shows "outside_unchanged w w' \<and> nticks w' = nticks w \<and> nqueries w' = nqueries w"
proof (cases "warmup > 0")
  case False
  with assms show ?thesis
    by (auto simp: pandas_warmup_def succeed_def outside_unchanged_def)
next
  case True
  with assms have l: "for_loop (py_range warmup) (pandas_warmup_iteration csv_file usecols) () w = (r, w')"
    by (simp add: pandas_warmup_def)
  show ?thesis
  proof (rule for_loop_world_inv [OF l,
      where P = "\<lambda>v. outside_unchanged w v \<and> nticks v = nticks w \<and> nqueries v = nqueries w"])
    show "outside_unchanged w w \<and> nticks w = nticks w \<and> nqueries w = nqueries w"
      by (simp add: outside_unchanged_def)
  next
    fix i s wa r wb
    assume "outside_unchanged w wa \<and> nticks wa = nticks w \<and> nqueries wa = nqueries w"
      and "pandas_warmup_iteration csv_file usecols i s wa = (r, wb)"
    then show "outside_unchanged w wb \<and> nticks wb = nticks w \<and> nqueries wb = nqueries w"
      unfolding pandas_warmup_iteration_eq
      by (auto simp: outside_unchanged_def split: sum.splits)
  qed
qed

lemma benchmark_pandas_Inr:
  assumes "benchmark_pandas_approach csv_file output_file usecols n warmup w = (Inr r, w')"
  obtains w1 l c t d where "pandas_warmup csv_file usecols warmup w = (Inr (), w1)"
    and "pandas_measure csv_file output_file usecols n w1 = (Inr (l, c, t, d), w')"
    and "pandas_summary (l, c, t, d) = Inr r"
proof -
  from assms obtain u w1 where wu: "pandas_warmup csv_file usecols warmup w = (Inr u, w1)"
    and rest: "and_then (pandas_measure csv_file output_file usecols n)
                 (\<lambda>acc. from_result (pandas_summary acc)) w1 = (Inr r, w')"
    unfolding benchmark_pandas_approach_def by (rule and_then_Inr)
  from rest obtain acc w2 where m: "pandas_measure csv_file output_file usecols n w1 = (Inr acc, w2)"
    and s: "from_result (pandas_summary acc) w2 = (Inr r, w')"
    by (rule and_then_Inr)
  obtain l c t d where acc: "acc = (l, c, t, d)" by (cases acc)
  from s have "pandas_summary acc = Inr r" and "w2 = w'" by (simp_all add: from_result_def)
  with wu m acc that show thesis by simp
qed

lemma pandas_measure_nonpositive:
  "n \<le> 0 \<Longrightarrow> pandas_measure csv_file output_file usecols n w = (Inr ([], [], [], None), w)"
  by (simp add: pandas_measure_def py_range_def)

lemma pandas_run_facts:
  assumes run: "benchmark_pandas_approach csv_file output_file usecols n warmup w = (Inr r, w')"
  shows "1 \<le> n"
    and "\<exists>df g. csv_table (files w csv_file) csv_file (if truthy usecols then usecols else None) = Inr df
           \<and> compute df = Inr g \<and> results r = Some g
           \<and> writes w' = writes w @ [(output_file, g)]
           \<and> files w' = (files w)(output_file \<mapsto> g)"
    and "length (load_times r) = nat n"
    and "length (compute_times r) = nat n"
    and "length (total_times r) = nat n"
    and "total_times r = map2 (\<lambda>a b. double_round (a + b)) (load_times r) (compute_times r)"
    and "pandas_summary (load_times r, compute_times r, total_times r, results r) = Inr r"
proof -
  from run obtain w1 l c t d where wu: "pandas_warmup csv_file usecols warmup w = (Inr (), w1)"
    and m: "pandas_measure csv_file output_file usecols n w1 = (Inr (l, c, t, d), w')"
    and s: "pandas_summary (l, c, t, d) = Inr r"
    by (rule benchmark_pandas_Inr)
  from s have ne: "l \<noteq> []" and r: "load_times r = l" "compute_times r = c" "total_times r = t"
    "results r = d"
    by (auto simp: pandas_summary_eq split: if_splits)
  show n: "1 \<le> n"
  proof (rule ccontr)
    assume "\<not> 1 \<le> n"
    then have "n \<le> 0" by simp
    from pandas_measure_nonpositive [OF this] m ne show False by simp
  qed
  from pandas_warmup_frame [OF wu] have same: "outside_unchanged w w1" by simp
  from pandas_measure_Inr [OF m n] same r
  show "\<exists>df g. csv_table (files w csv_file) csv_file (if truthy usecols then usecols else None) = Inr df
           \<and> compute df = Inr g \<and> results r = Some g
           \<and> writes w' = writes w @ [(output_file, g)]
           \<and> files w' = (files w)(output_file \<mapsto> g)"
    by (auto simp: outside_unchanged_def)
  from m have loop: "for_loop (py_range n) (pandas_iteration csv_file output_file usecols n)
      ([], [], [], None) w1 = (Inr (l, c, t, d), w')"
    by (simp add: pandas_measure_def)
  from pandas_loop_lengths [OF loop] r
  show "length (load_times r) = nat n" "length (compute_times r) = nat n"
    "length (total_times r) = nat n"
    by (simp_all add: py_range_def)
  from pandas_loop_sums [OF loop] r
  show "total_times r = map2 (\<lambda>a b. double_round (a + b)) (load_times r) (compute_times r)"
    by (simp add: sums_of_phases_def)
  from s r show "pandas_summary (load_times r, compute_times r, total_times r, results r) = Inr r"
    by simp
qed


lemma data_frame_run_query:
  "data_frame (run_query cl rows)
     [''passenger_count'', ''mean_fare'', ''median_fare'', ''variance_fare''] =
   Inr [(''passenger_count'', sql_group_keys rows),
        (''mean_fare'', map (\<lambda>k. avg cl (group_values rows k)) (sql_group_keys rows)),
        (''median_fare'', map (\<lambda>k. quantile_half cl (group_values rows k)) (sql_group_keys rows)),
        (''variance_fare'', map (\<lambda>k. varSamp cl (group_values rows k)) (sql_group_keys rows))]"
proof -
  have up: "[0..<4] = [0, Suc 0, Suc (Suc 0), Suc (Suc (Suc 0))]"
    by (simp add: upt_rec)
  show ?thesis
    by (simp add: data_frame_def run_query_def list_all_iff up comp_def)
qed

lemma clickhouse_iteration_frame:
  assumes "clickhouse_iteration cl database table output_file iterations i s w = (r, w')"
    and "int i \<noteq> iterations - 1"
  shows "outside_unchanged w w'"
proof -
  obtain q sv t d where s: "s = (q, sv, t, d)" by (cases s)
  show ?thesis
    using assms unfolding s clickhouse_iteration_eq
    by (auto simp: Let_def outside_unchanged_def split: sum.splits)
qed

lemma clickhouse_iteration_samples:
  assumes "clickhouse_iteration cl database table output_file iterations i (q, sv, t, d) w = (Inr s', w')"
  shows "\<exists>qe se d'. s' = (q @ [qe], sv @ [se], t @ [double_round (qe + se)], d')"
  using assms unfolding clickhouse_iteration_eq
  by (auto simp: Let_def split: sum.splits if_splits)

lemma clickhouse_loop_lengths:
  assumes "for_loop xs (clickhouse_iteration cl database table output_file iterations) (q, sv, t, d) w
           = (Inr (q', sv', t', d'), w')"
  shows "length q' = length q + length xs \<and> length sv' = length sv + length xs
         \<and> length t' = length t + length xs"
  using assms
proof (induction xs arbitrary: q sv t d w)
  case Nil
  then show ?case by simp
next
  case (Cons i rest)
  obtain r1 w1 where b:
    "clickhouse_iteration cl database table output_file iterations i (q, sv, t, d) w = (r1, w1)"
    by (cases "clickhouse_iteration cl database table output_file iterations i (q, sv, t, d) w")
  show ?case
  proof (cases r1)
    case (Inl e)
    with Cons.prems b show ?thesis by simp
  next
    case (Inr s1)
    with b obtain qe se d1 where s1: "s1 = (q @ [qe], sv @ [se], t @ [double_round (qe + se)], d1)"
      using clickhouse_iteration_samples by blast
    from Cons.prems b Inr s1
    have "for_loop rest (clickhouse_iteration cl database table output_file iterations)
            (q @ [qe], sv @ [se], t @ [double_round (qe + se)], d1) w1 = (Inr (q', sv', t', d'), w')"
      by simp
    from Cons.IH [OF this] show ?thesis by simp
  qed
qed

lemma clickhouse_loop_sums:
  assumes "for_loop xs (clickhouse_iteration cl database table output_file iterations) s w = (Inr s', w')"
    and "sums_of_phases s"
  shows "sums_of_phases s'"
proof (rule for_loop_state_inv [OF assms(1), where Q = sums_of_phases, OF assms(2)])
  fix i s w s' w'
  assume q: "sums_of_phases s"
    and b: "clickhouse_iteration cl database table output_file iterations i s w = (Inr s', w')"
  obtain l c t d where s: "s = (l, c, t, d)" by (cases s)
  from b s obtain le ce d' where "s' = (l @ [le], c @ [ce], t @ [double_round (le + ce)], d')"
    using clickhouse_iteration_samples by blast
  with q s show "sums_of_phases s'" by (simp add: sums_of_phases_def)
qed

lemma clickhouse_prefix_frame:
  assumes "for_loop [0..<nat n - 1] (clickhouse_iteration cl database table output_file n) s w = (r, w')"
  shows "outside_unchanged w w'"
proof (rule for_loop_world_inv [OF assms, where P = "outside_unchanged w"])
  show "outside_unchanged w w" by (rule outside_unchanged_refl)
next
  fix i s wa r wb
  assume i: "i \<in> set [0..<nat n - 1]" and p: "outside_unchanged w wa"
    and b: "clickhouse_iteration cl database table output_file n i s wa = (r, wb)"
  from i have "int i \<noteq> n - 1" by auto
  from clickhouse_iteration_frame [OF b this] p show "outside_unchanged w wb"
    by (rule outside_unchanged_trans [rotated])
qed

lemma clickhouse_measure_Inr:
  assumes m: "clickhouse_measure cl database table output_file n w = (Inr (q, sv, t, d), w')"
    and n: "1 \<le> n"
  shows "\<exists>k rows g. remote w database table k = Inr rows
           \<and> data_frame (run_query cl rows)
               [''passenger_count'', ''mean_fare'', ''median_fare'', ''variance_fare''] = Inr g
           \<and> d = Some g
           \<and> writes w' = writes w @ [(output_file, g)]
           \<and> files w' = (files w)(output_file \<mapsto> g)"
proof -
  let ?body = "clickhouse_iteration cl database table output_file n"
  from m have run: "for_loop ([0..<nat n - 1] @ [nat n - 1]) ?body ([], [], [], None) w
      = (Inr (q, sv, t, d), w')"
    by (simp add: clickhouse_measure_def py_range_last [OF n])
  obtain r1 w1 where pre: "for_loop [0..<nat n - 1] ?body ([], [], [], None) w = (r1, w1)"
    by (cases "for_loop [0..<nat n - 1] ?body ([], [], [], None) w")
  from clickhouse_prefix_frame [OF pre] have same: "outside_unchanged w w1" .
  from run pre obtain s1 where r1: "r1 = Inr s1"
    by (cases r1) (auto simp: for_loop_append)
  obtain l1 c1 t1 d1 where s1: "s1 = (l1, c1, t1, d1)" by (cases s1)
  from run pre r1 s1 have "for_loop [nat n - 1] ?body (l1, c1, t1, d1) w1 = (Inr (q, sv, t, d), w')"
    by (simp add: for_loop_append)
  then have last: "?body (nat n - 1) (l1, c1, t1, d1) w1 = (Inr (q, sv, t, d), w')"
    by (auto split: prod.splits sum.splits)
  from n have idx: "int (nat n - 1) = n - 1" by simp
  from last idx same
  have "\<exists>rows g. remote w database table (nqueries w1) = Inr rows
           \<and> data_frame (run_query cl rows)
               [''passenger_count'', ''mean_fare'', ''median_fare'', ''variance_fare''] = Inr g
           \<and> d = Some g
           \<and> writes w' = writes w @ [(output_file, g)]
           \<and> files w' = (files w)(output_file \<mapsto> g)"
    unfolding clickhouse_iteration_eq
    by (auto simp: Let_def outside_unchanged_def split: sum.splits if_splits)
  then show ?thesis by blast
qed

lemma clickhouse_warmup_iteration_eq:
  "clickhouse_warmup_iteration cl database table i u w =
     (case remote w database table (nqueries w) of
        Inl e \<Rightarrow> (Inl e, w\<lparr>nqueries := Suc (nqueries w)\<rparr>)
      | Inr rows \<Rightarrow> (Inr (), w\<lparr>nqueries := Suc (nqueries w)\<rparr>))"
  by (simp add: clickhouse_warmup_iteration_def and_then_def client_query_def succeed_def
      Let_def split: sum.splits)

lemma clickhouse_warmup_frame:
  assumes "clickhouse_warmup cl database table warmup w = (r, w')"
  shows "outside_unchanged w w' \<and> nticks w' = nticks w \<and> nreads w' = nreads w"
proof (cases "warmup > 0")
  case False
  with assms show ?thesis
    by (auto simp: clickhouse_warmup_def succeed_def outside_unchanged_def)
next
  case True
  with assms have l: "for_loop (py_range warmup) (clickhouse_warmup_iteration cl database table) () w = (r, w')"
    by (simp add: clickhouse_warmup_def)
  show ?thesis
  proof (rule for_loop_world_inv [OF l,
      where P = "\<lambda>v. outside_unchanged w v \<and> nticks v = nticks w \<and> nreads v = nreads w"])
    show "outside_unchanged w w \<and> nticks w = nticks w \<and> nreads w = nreads w"
      by (simp add: outside_unchanged_def)
  next
    fix i s wa r wb
    assume "outside_unchanged w wa \<and> nticks wa = nticks w \<and> nreads wa = nreads w"
      and "clickhouse_warmup_iteration cl database table i s wa = (r, wb)"
    then show "outside_unchanged w wb \<and> nticks wb = nticks w \<and> nreads wb = nreads w"
      unfolding clickhouse_warmup_iteration_eq
      by (auto simp: outside_unchanged_def split: sum.splits)
  qed
qed

lemma benchmark_clickhouse_Inr:
  assumes "benchmark_clickhouse_approach cl database table output_file n warmup w = (Inr r, w')"
  obtains w1 q sv t d where "clickhouse_warmup cl database table warmup w = (Inr (), w1)"
    and "clickhouse_measure cl database table output_file n w1 = (Inr (q, sv, t, d), w')"
    and "clickhouse_summary (q, sv, t, d) = Inr r"
proof -
  from assms obtain u w1 where wu: "clickhouse_warmup cl database table warmup w = (Inr u, w1)"
    and rest: "and_then (clickhouse_measure cl database table output_file n)
                 (\<lambda>acc. from_result (clickhouse_summary acc)) w1 = (Inr r, w')"
    unfolding benchmark_clickhouse_approach_def by (rule and_then_Inr)
  from rest obtain acc w2 where m: "clickhouse_measure cl database table output_file n w1 = (Inr acc, w2)"
    and s: "from_result (clickhouse_summary acc) w2 = (Inr r, w')"
    by (rule and_then_Inr)
  obtain q sv t d where acc: "acc = (q, sv, t, d)" by (cases acc)
  from s have "clickhouse_summary acc = Inr r" and "w2 = w'" by (simp_all add: from_result_def)
  with wu m acc that show thesis by simp
qed

lemma clickhouse_measure_nonpositive:
  "n \<le> 0 \<Longrightarrow> clickhouse_measure cl database table output_file n w = (Inr ([], [], [], None), w)"
  by (simp add: clickhouse_measure_def py_range_def)

lemma clickhouse_run_facts:
  assumes run: "benchmark_clickhouse_approach cl database table output_file n warmup w = (Inr r, w')"
  shows "1 \<le> n"
    and "\<exists>k rows g. remote w database table k = Inr rows
           \<and> data_frame (run_query cl rows)
               [''passenger_count'', ''mean_fare'', ''median_fare'', ''variance_fare''] = Inr g
           \<and> ch_results r = Some g
           \<and> writes w' = writes w @ [(output_file, g)]
           \<and> files w' = (files w)(output_file \<mapsto> g)"
    and "length (query_times r) = nat n"
    and "length (save_times r) = nat n"
    and "length (ch_total_times r) = nat n"
    and "ch_total_times r = map2 (\<lambda>a b. double_round (a + b)) (query_times r) (save_times r)"
    and "clickhouse_summary (query_times r, save_times r, ch_total_times r, ch_results r) = Inr r"
proof -
  from run obtain w1 q sv t d where wu: "clickhouse_warmup cl database table warmup w = (Inr (), w1)"
    and m: "clickhouse_measure cl database table output_file n w1 = (Inr (q, sv, t, d), w')"
    and s: "clickhouse_summary (q, sv, t, d) = Inr r"
    by (rule benchmark_clickhouse_Inr)
  from s have ne: "q \<noteq> []" and r: "query_times r = q" "save_times r = sv" "ch_total_times r = t"
    "ch_results r = d"
    by (auto simp: clickhouse_summary_eq split: if_splits)
  show n: "1 \<le> n"
  proof (rule ccontr)
    assume "\<not> 1 \<le> n"
    then have "n \<le> 0" by simp
    from clickhouse_measure_nonpositive [OF this] m ne show False by simp
  qed
  from clickhouse_warmup_frame [OF wu] have same: "outside_unchanged w w1" by simp
  from clickhouse_measure_Inr [OF m n] same r
  show "\<exists>k rows g. remote w database table k = Inr rows
           \<and> data_frame (run_query cl rows)
               [''passenger_count'', ''mean_fare'', ''median_fare'', ''variance_fare''] = Inr g
           \<and> ch_results r = Some g
           \<and> writes w' = writes w @ [(output_file, g)]
           \<and> files w' = (files w)(output_file \<mapsto> g)"
    by (auto simp: outside_unchanged_def)
  from m have loop: "for_loop (py_range n) (clickhouse_iteration cl database table output_file n)
      ([], [], [], None) w1 = (Inr (q, sv, t, d), w')"
    by (simp add: clickhouse_measure_def)
  from clickhouse_loop_lengths [OF loop] r
  show "length (query_times r) = nat n" "length (save_times r) = nat n"
    "length (ch_total_times r) = nat n"
    by (simp_all add: py_range_def)
  from clickhouse_loop_sums [OF loop] r
  show "ch_total_times r = map2 (\<lambda>a b. double_round (a + b)) (query_times r) (save_times r)"
    by (simp add: sums_of_phases_def)
  from s r show "clickhouse_summary (query_times r, save_times r, ch_total_times r, ch_results r) = Inr r"
    by simp
qed


lemma compute_Inr_groupby:
  "compute df = Inr g \<Longrightarrow> \<exists>x. groupby_agg df = Inr x"
  by (cases "groupby_agg df") (simp_all add: compute_def)

lemma pandas_warmup_loop_ok:
  assumes "csv_table (files w csv_file) csv_file (if truthy usecols then usecols else None) = Inr df"
    and "groupby_agg df = Inr x"
  shows "\<exists>w'. for_loop xs (pandas_warmup_iteration csv_file usecols) () w = (Inr (), w')"
  using assms(1)
proof (induction xs arbitrary: w)
  case Nil
  then show ?case by simp
next
  case (Cons i rest)
  let ?w1 = "w\<lparr>nreads := Suc (nreads w)\<rparr>"
  from Cons.prems assms(2)
  have step: "pandas_warmup_iteration csv_file usecols i () w = (Inr (), ?w1)"
    by (simp add: pandas_warmup_iteration_eq)
  from Cons.prems
  have "csv_table (files ?w1 csv_file) csv_file (if truthy usecols then usecols else None) = Inr df"
    by simp
  from Cons.IH [OF this] step show ?case by simp
qed

lemma pandas_warmup_ok:
  assumes "csv_table (files w csv_file) csv_file (if truthy usecols then usecols else None) = Inr df"
    and "compute df = Inr g"
  shows "\<exists>w'. pandas_warmup csv_file usecols warmup w = (Inr (), w')"
proof -
  from assms(2) obtain x where "groupby_agg df = Inr x"
    using compute_Inr_groupby by blast
  from pandas_warmup_loop_ok [OF assms(1) this] show ?thesis
    by (simp add: pandas_warmup_def succeed_def)
qed

lemma pandas_prefix_ok:
  assumes "csv_table (files w csv_file) csv_file (if truthy usecols then usecols else None) = Inr df"
    and "compute df = Inr g"
    and "\<forall>i \<in> set xs. int i \<noteq> n - 1"
  shows "\<exists>s' w'. for_loop xs (pandas_iteration csv_file output_file usecols n) s w = (Inr s', w')"
  using assms(1,3)
proof (induction xs arbitrary: s w)
  case Nil
  show ?case unfolding for_loop.simps by blast
next
  case (Cons i rest)
  obtain l c t d where s: "s = (l, c, t, d)" using prod_cases4 by blast
  from Cons.prems(2) have i: "int i \<noteq> n - 1" by simp
  from Cons.prems(1) assms(2) i obtain s1 w1
    where step: "pandas_iteration csv_file output_file usecols n i s w = (Inr s1, w1)"
      and f: "files w1 = files w"
    unfolding s pandas_iteration_eq by (simp add: Let_def)
  from Cons.prems(1) f
  have "csv_table (files w1 csv_file) csv_file (if truthy usecols then usecols else None) = Inr df"
    by simp
  moreover from Cons.prems(2) have "\<forall>i \<in> set rest. int i \<noteq> n - 1" by simp
  ultimately obtain s' w' where
    "for_loop rest (pandas_iteration csv_file output_file usecols n) s1 w1 = (Inr s', w')"
    using Cons.IH by blast
  with step show ?case by (simp del: split_paired_Ex)
qed

lemma pandas_measure_ok:
  assumes t: "csv_table (files w csv_file) csv_file (if truthy usecols then usecols else None) = Inr df"
    and c: "compute df = Inr g"
    and o: "output_file \<notin> set (unwritable w)"
    and n: "1 \<le> n"
  shows "\<exists>s' w'. pandas_measure csv_file output_file usecols n w = (Inr s', w')"
proof -
  let ?body = "pandas_iteration csv_file output_file usecols n"
  have "\<forall>i \<in> set [0..<nat n - 1]. int i \<noteq> n - 1" by auto
  from pandas_prefix_ok [OF t c this] obtain s1 w1 where
    pre: "for_loop [0..<nat n - 1] ?body ([], [], [], None) w = (Inr s1, w1)"
    by blast
  from pandas_prefix_frame [OF pre] have same: "outside_unchanged w w1" .
  obtain l1 c1 t1 d1 where s1: "s1 = (l1, c1, t1, d1)" by (cases s1)
  from n have idx: "int (nat n - 1) = n - 1" by simp
  from t c o same idx obtain s' w' where "?body (nat n - 1) s1 w1 = (Inr s', w')"
    unfolding s1 pandas_iteration_eq by (simp add: Let_def outside_unchanged_def)
  with pre show ?thesis
    by (simp add: pandas_measure_def py_range_last [OF n] for_loop_append del: split_paired_Ex)
qed

lemma pandas_run_ok:
  assumes t: "csv_table (files w csv_file) csv_file (if truthy usecols then usecols else None) = Inr df"
    and c: "compute df = Inr g"
    and o: "output_file \<notin> set (unwritable w)"
    and n: "1 \<le> n"
  shows "\<exists>r w'. benchmark_pandas_approach csv_file output_file usecols n warmup w = (Inr r, w')"
proof -
  from pandas_warmup_ok [OF t c] obtain w1 where
    wu: "pandas_warmup csv_file usecols warmup w = (Inr (), w1)" by blast
  from pandas_warmup_frame [OF wu] have same: "outside_unchanged w w1" by simp
  with t o have t1: "csv_table (files w1 csv_file) csv_file (if truthy usecols then usecols else None) = Inr df"
    and o1: "output_file \<notin> set (unwritable w1)"
    by (simp_all add: outside_unchanged_def)
  from pandas_measure_ok [OF t1 c o1 n] obtain s' w' where
    m: "pandas_measure csv_file output_file usecols n w1 = (Inr s', w')" by blast
  obtain l ct tt d where s': "s' = (l, ct, tt, d)" by (cases s')
  from m s' have "for_loop (py_range n) (pandas_iteration csv_file output_file usecols n)
      ([], [], [], None) w1 = (Inr (l, ct, tt, d), w')"
    by (simp add: pandas_measure_def)
  from pandas_loop_lengths [OF this] n have "l \<noteq> []" "ct \<noteq> []" "tt \<noteq> []"
    by (auto simp: py_range_def)
  then obtain r where "pandas_summary (l, ct, tt, d) = Inr r"
    by (simp add: pandas_summary_eq)
  with wu m s' show ?thesis
    by (simp add: benchmark_pandas_approach_def and_then_def from_result_def)
qed

lemma clickhouse_warmup_loop_ok:
  assumes "\<forall>k. \<exists>rows. remote w database table k = Inr rows"
  shows "\<exists>w'. for_loop xs (clickhouse_warmup_iteration cl database table) () w = (Inr (), w')"
  using assms
proof (induction xs arbitrary: w)
  case Nil
  then show ?case by simp
next
  case (Cons i rest)
  let ?w1 = "w\<lparr>nqueries := Suc (nqueries w)\<rparr>"
  from Cons.prems obtain rows where "remote w database table (nqueries w) = Inr rows" by blast
  then have step: "clickhouse_warmup_iteration cl database table i () w = (Inr (), ?w1)"
    by (simp add: clickhouse_warmup_iteration_eq)
  from Cons.prems have "\<forall>k. \<exists>rows. remote ?w1 database table k = Inr rows" by simp
  from Cons.IH [OF this] step show ?case by simp
qed

lemma clickhouse_prefix_ok:
  assumes "\<forall>k. \<exists>rows. remote w database table k = Inr rows"
    and "\<forall>i \<in> set xs. int i \<noteq> n - 1"
  shows "\<exists>s' w'. for_loop xs (clickhouse_iteration cl database table output_file n) s w = (Inr s', w')"
  using assms
proof (induction xs arbitrary: s w)
  case Nil
  show ?case unfolding for_loop.simps by blast
next
  case (Cons i rest)
  obtain q sv t d where s: "s = (q, sv, t, d)" using prod_cases4 by blast
  from Cons.prems(2) have i: "int i \<noteq> n - 1" by simp
  from Cons.prems(1) obtain rows where "remote w database table (nqueries w) = Inr rows" by blast
  with i obtain s1 w1
    where step: "clickhouse_iteration cl database table output_file n i s w = (Inr s1, w1)"
      and f: "remote w1 = remote w"
    unfolding s clickhouse_iteration_eq by (simp add: Let_def data_frame_run_query)
  from Cons.prems(1) f have "\<forall>k. \<exists>rows. remote w1 database table k = Inr rows" by simp
  moreover from Cons.prems(2) have "\<forall>i \<in> set rest. int i \<noteq> n - 1" by simp
  ultimately obtain s' w' where
    "for_loop rest (clickhouse_iteration cl database table output_file n) s1 w1 = (Inr s', w')"
    using Cons.IH by blast
  with step show ?case by (simp del: split_paired_Ex)
qed

lemma clickhouse_run_ok:
  assumes t: "\<forall>k. \<exists>rows. remote w database table k = Inr rows"
    and o: "output_file \<notin> set (unwritable w)"
    and n: "1 \<le> n"
  shows "\<exists>r w'. benchmark_clickhouse_approach cl database table output_file n warmup w = (Inr r, w')"
proof -
  let ?body = "clickhouse_iteration cl database table output_file n"
  from clickhouse_warmup_loop_ok [OF t] obtain w1 where
    wu: "clickhouse_warmup cl database table warmup w = (Inr (), w1)"
    by (cases "warmup > 0") (auto simp: clickhouse_warmup_def succeed_def)
  from clickhouse_warmup_frame [OF wu] have same: "outside_unchanged w w1" by simp
  with t o have t1: "\<forall>k. \<exists>rows. remote w1 database table k = Inr rows"
    and o1: "output_file \<notin> set (unwritable w1)"
    by (simp_all add: outside_unchanged_def)
  have "\<forall>i \<in> set [0..<nat n - 1]. int i \<noteq> n - 1" by auto
  from clickhouse_prefix_ok [OF t1 this] obtain s1 w2 where
    pre: "for_loop [0..<nat n - 1] ?body ([], [], [], None) w1 = (Inr s1, w2)"
    by blast
  from clickhouse_prefix_frame [OF pre] have same2: "outside_unchanged w1 w2" .
  obtain q1 sv1 t1 d1 where s1: "s1 = (q1, sv1, t1, d1)" by (cases s1)
  from n have idx: "int (nat n - 1) = n - 1" by simp
  from t1 same2 obtain rows where "remote w2 database table (nqueries w2) = Inr rows"
    by (auto simp: outside_unchanged_def)
  with o1 same2 idx obtain s' w' where last: "?body (nat n - 1) s1 w2 = (Inr s', w')"
    unfolding s1 clickhouse_iteration_eq
    by (simp add: Let_def outside_unchanged_def data_frame_run_query)
  with pre have m: "clickhouse_measure cl database table output_file n w1 = (Inr s', w')"
    by (simp add: clickhouse_measure_def py_range_last [OF n] for_loop_append)
  obtain q sv tt d where s': "s' = (q, sv, tt, d)" by (cases s')
  from m s' have "for_loop (py_range n) ?body ([], [], [], None) w1 = (Inr (q, sv, tt, d), w')"
    by (simp add: clickhouse_measure_def)
  from clickhouse_loop_lengths [OF this] n have "q \<noteq> []" "sv \<noteq> []" "tt \<noteq> []"
    by (auto simp: py_range_def)
  then obtain r where "clickhouse_summary (q, sv, tt, d) = Inr r"
    by (simp add: clickhouse_summary_eq)
  with wu m s' show ?thesis
    by (simp add: benchmark_clickhouse_approach_def and_then_def from_result_def)
qed

section \<open>The scenario, evaluated\<close>

lemma scenario_table:
  "csv_table (files scenario_world ''data/nyc_taxi_data.csv'') ''data/nyc_taxi_data.csv'' None
     = Inr scenario_csv"
  by (simp add: scenario_world_def scenario_csv_def csv_table_def)

lemma scenario_compute:
  "compute scenario_csv =
     Inr [(''passenger_count'', [Some 1, Some 2]), (''mean_fare'', [Some 15, Some 15]),
          (''median_fare'', [Some 15, Some 15]), (''variance_fare'', [Some 50, None])]"
  by (simp add: scenario_csv_def compute_def groupby_agg_def group_keys_def group_values_def
      agg_mean_def agg_median_def agg_var_def kahan_add_def welford_step_def Let_def)

lemma scenario_remote:
  "\<forall>k. \<exists>rows. remote scenario_world database table k = Inr rows"
  by (simp add: scenario_world_def)

lemma scenario_writable: "path \<notin> set (unwritable scenario_world)"
  by (simp add: scenario_world_def)

section \<open>Runs that fail\<close>

lemma pandas_measure_Inl:
  assumes m: "pandas_measure csv_file output_file usecols n w = (Inl e, w')"
  shows "outside_unchanged w w'"
proof (cases "1 \<le> n")
  case False
  then have "n \<le> 0" by simp
  from pandas_measure_nonpositive [OF this] m show ?thesis by simp
next
  case n: True
  let ?body = "pandas_iteration csv_file output_file usecols n"
  from m have run: "for_loop ([0..<nat n - 1] @ [nat n - 1]) ?body ([], [], [], None) w = (Inl e, w')"
    by (simp add: pandas_measure_def py_range_last [OF n])
  obtain r1 w1 where pre: "for_loop [0..<nat n - 1] ?body ([], [], [], None) w = (r1, w1)"
    by (cases "for_loop [0..<nat n - 1] ?body ([], [], [], None) w")
  from pandas_prefix_frame [OF pre] have same: "outside_unchanged w w1" .
  show ?thesis
  proof (cases r1)
    case (Inl e1)
    with run pre have "w' = w1" by (simp add: for_loop_append)
    with same show ?thesis by simp
  next
    case (Inr s1)
    obtain l1 c1 t1 d1 where s1: "s1 = (l1, c1, t1, d1)" using prod_cases4 by blast
    from run pre Inr s1 have "for_loop [nat n - 1] ?body (l1, c1, t1, d1) w1 = (Inl e, w')"
      by (simp add: for_loop_append)
    then have "?body (nat n - 1) (l1, c1, t1, d1) w1 = (Inl e, w')"
      by (auto split: prod.splits sum.splits)
    then have "outside_unchanged w1 w'"
      unfolding pandas_iteration_eq
      by (auto simp: Let_def outside_unchanged_def split: sum.splits if_splits)
    with same show ?thesis by (rule outside_unchanged_trans)
  qed
qed

lemma pandas_run_Inl:
  assumes run: "benchmark_pandas_approach csv_file output_file usecols n warmup w = (Inl e, w')"
  shows "outside_unchanged w w'"
proof -
  obtain r1 w1 where wu: "pandas_warmup csv_file usecols warmup w = (r1, w1)"
    by (cases "pandas_warmup csv_file usecols warmup w")
  from pandas_warmup_frame [OF wu] have s1: "outside_unchanged w w1" by simp
  show ?thesis
  proof (cases r1)
    case (Inl e1)
    with run wu have "w' = w1" by (simp add: benchmark_pandas_approach_def and_then_def)
    with s1 show ?thesis by simp
  next
    case (Inr u)
    obtain r2 w2 where m: "pandas_measure csv_file output_file usecols n w1 = (r2, w2)"
      by (cases "pandas_measure csv_file output_file usecols n w1")
    show ?thesis
    proof (cases r2)
      case (Inl e2)
      with run wu Inr m have "w' = w2"
        by (simp add: benchmark_pandas_approach_def and_then_def)
      with pandas_measure_Inl m Inl s1 show ?thesis
        using outside_unchanged_trans by blast
    next
      case acc: (Inr acc)
      obtain l c t d where a: "acc = (l, c, t, d)" using prod_cases4 by blast
      from run wu Inr m acc a have fail: "pandas_summary (l, c, t, d) = Inl e" and w': "w' = w2"
        by (simp_all add: benchmark_pandas_approach_def and_then_def from_result_def)
      have "\<not> 1 \<le> n"
      proof
        assume n: "1 \<le> n"
        from m acc a have "for_loop (py_range n) (pandas_iteration csv_file output_file usecols n)
            ([], [], [], None) w1 = (Inr (l, c, t, d), w2)"
          by (simp add: pandas_measure_def)
        from pandas_loop_lengths [OF this] n have "l \<noteq> []" "c \<noteq> []" "t \<noteq> []"
          by (auto simp: py_range_def)
        with fail show False by (simp add: pandas_summary_eq)
      qed
      then have "n \<le> 0" by simp
      from pandas_measure_nonpositive [OF this] m have "w2 = w1" by simp
      with w' s1 show ?thesis by simp
    qed
  qed
qed

lemma clickhouse_measure_Inl:
  assumes m: "clickhouse_measure cl database table output_file n w = (Inl e, w')"
  shows "outside_unchanged w w'"
proof (cases "1 \<le> n")
  case False
  then have "n \<le> 0" by simp
  from clickhouse_measure_nonpositive [OF this] m show ?thesis by simp
next
  case n: True
  let ?body = "clickhouse_iteration cl database table output_file n"
  from m have run: "for_loop ([0..<nat n - 1] @ [nat n - 1]) ?body ([], [], [], None) w = (Inl e, w')"
    by (simp add: clickhouse_measure_def py_range_last [OF n])
  obtain r1 w1 where pre: "for_loop [0..<nat n - 1] ?body ([], [], [], None) w = (r1, w1)"
    by (cases "for_loop [0..<nat n - 1] ?body ([], [], [], None) w")
  from clickhouse_prefix_frame [OF pre] have same: "outside_unchanged w w1" .
  show ?thesis
  proof (cases r1)
    case (Inl e1)
    with run pre have "w' = w1" by (simp add: for_loop_append)
    with same show ?thesis by simp
  next
    case (Inr s1)
    obtain l1 c1 t1 d1 where s1: "s1 = (l1, c1, t1, d1)" using prod_cases4 by blast
    from run pre Inr s1 have "for_loop [nat n - 1] ?body (l1, c1, t1, d1) w1 = (Inl e, w')"
      by (simp add: for_loop_append)
    then have "?body (nat n - 1) (l1, c1, t1, d1) w1 = (Inl e, w')"
      by (auto split: prod.splits sum.splits)
    then have "outside_unchanged w1 w'"
      unfolding clickhouse_iteration_eq
      by (auto simp: Let_def outside_unchanged_def split: sum.splits if_splits)
    with same show ?thesis by (rule outside_unchanged_trans)
  qed
qed

lemma clickhouse_run_Inl:
  assumes run: "benchmark_clickhouse_approach cl database table output_file n warmup w = (Inl e, w')"
  shows "outside_unchanged w w'"
proof -
  obtain r1 w1 where wu: "clickhouse_warmup cl database table warmup w = (r1, w1)"
    by (cases "clickhouse_warmup cl database table warmup w")
  from clickhouse_warmup_frame [OF wu] have s1: "outside_unchanged w w1" by simp
  show ?thesis
  proof (cases r1)
    case (Inl e1)
    with run wu have "w' = w1" by (simp add: benchmark_clickhouse_approach_def and_then_def)
    with s1 show ?thesis by simp
  next
    case (Inr u)
    obtain r2 w2 where m: "clickhouse_measure cl database table output_file n w1 = (r2, w2)"
      by (cases "clickhouse_measure cl database table output_file n w1")
    show ?thesis
    proof (cases r2)
      case (Inl e2)
      with run wu Inr m have "w' = w2"
        by (simp add: benchmark_clickhouse_approach_def and_then_def)
      with clickhouse_measure_Inl m Inl s1 show ?thesis
        using outside_unchanged_trans by blast
    next
      case acc: (Inr acc)
      obtain l c t d where a: "acc = (l, c, t, d)" using prod_cases4 by blast
      from run wu Inr m acc a have fail: "clickhouse_summary (l, c, t, d) = Inl e" and w': "w' = w2"
        by (simp_all add: benchmark_clickhouse_approach_def and_then_def from_result_def)
      have "\<not> 1 \<le> n"
      proof
        assume n: "1 \<le> n"
        from m acc a have "for_loop (py_range n) (clickhouse_iteration cl database table output_file n)
            ([], [], [], None) w1 = (Inr (l, c, t, d), w2)"
          by (simp add: clickhouse_measure_def)
        from clickhouse_loop_lengths [OF this] n have "l \<noteq> []" "c \<noteq> []" "t \<noteq> []"
          by (auto simp: py_range_def)
        with fail show False by (simp add: clickhouse_summary_eq)
      qed
      then have "n \<le> 0" by simp
      from clickhouse_measure_nonpositive [OF this] m have "w2 = w1" by simp
      with w' s1 show ?thesis by simp
    qed
  qed
qed

lemma py_range_3: "py_range 3 = [0, 1, 2]"
  by (simp add: py_range_def upt_rec)

lemma scenario_missing:
  "csv_table (files scenario_world ''missing.csv'') ''missing.csv'' usecols
     = Inl (FileNotFoundError ''missing.csv'')"
  by (simp add: scenario_world_def csv_table_def)

section \<open>Grouping and aggregating\<close>

lemma set_dropna: "set (dropna cs) = {v. Some v \<in> set cs}"
  by (induction cs rule: dropna.induct) auto


lemma group_keys_sorted: "sorted (group_keys rows)"
  by (simp add: group_keys_def)

lemma group_keys_distinct: "distinct (group_keys rows)"
  by (simp add: group_keys_def)

lemma set_group_keys: "set (group_keys rows) = {k. Some k \<in> fst ` set rows}"
  by (simp add: group_keys_def set_dropna)


lemma compute_eq:
  assumes "map_of df ''passenger_count'' = Some ks" and "map_of df ''fare_amount'' = Some vs"
  shows "compute df =
     Inr [(''passenger_count'', map Some (group_keys (zip ks vs))),
          (''mean_fare'', map (\<lambda>k. agg_mean double_round (group_values (zip ks vs) (Some k))) (group_keys (zip ks vs))),
          (''median_fare'', map (\<lambda>k. agg_median double_round (group_values (zip ks vs) (Some k))) (group_keys (zip ks vs))),
          (''variance_fare'', map (\<lambda>k. agg_var double_round (group_values (zip ks vs) (Some k))) (group_keys (zip ks vs)))]"
  using assms by (simp add: compute_def groupby_agg_def Let_def)

lemma compute_Inr:
  assumes "compute df = Inr g"
  obtains ks vs where "map_of df ''passenger_count'' = Some ks"
    and "map_of df ''fare_amount'' = Some vs"
  using assms
  by (auto simp: compute_def groupby_agg_def split: option.splits)

section \<open>The written file\<close>

lemma data_rows_first_column:
  "map hd (data_rows ((name, col) # rest)) = col"
proof -
  have "map hd (data_rows ((name, col) # rest)) = map (\<lambda>i. col ! i) [0..<length col]"
    by (simp add: data_rows_def nrows_def cell_at_def)
  then show ?thesis by (simp add: map_nth)
qed

lemma length_data_rows: "length (data_rows ((name, col) # rest)) = length col"
  by (simp add: data_rows_def nrows_def)

lemma sql_group_keys_distinct: "distinct (sql_group_keys rows)"
  by (auto simp: sql_group_keys_def distinct_map group_keys_distinct)

lemma set_sql_group_keys: "set (sql_group_keys rows) = fst ` set rows"
proof
  show "set (sql_group_keys rows) \<subseteq> fst ` set rows"
    by (auto simp: sql_group_keys_def set_group_keys split: if_splits)
next
  show "fst ` set rows \<subseteq> set (sql_group_keys rows)"
  proof
    fix c assume c: "c \<in> fst ` set rows"
    show "c \<in> set (sql_group_keys rows)"
    proof (cases c)
      case None
      with c show ?thesis by (simp add: sql_group_keys_def)
    next
      case (Some k)
      with c have "k \<in> set (group_keys rows)" by (simp add: set_group_keys)
      with Some show ?thesis by (simp add: sql_group_keys_def)
    qed
  qed
qed

lemma map_of_usecols:
  "name \<in> set cols \<Longrightarrow> map_of (filter (\<lambda>col. fst col \<in> set cols) tbl) name = map_of tbl name"
  by (induction tbl) auto

lemma compute_usecols:
  assumes "''passenger_count'' \<in> set cols" and "''fare_amount'' \<in> set cols"
  shows "compute (filter (\<lambda>col. fst col \<in> set cols) tbl) = compute tbl"
proof -
  from assms
  have "map_of (filter (\<lambda>col. fst col \<in> set cols) tbl) ''passenger_count'' = map_of tbl ''passenger_count''"
    and "map_of (filter (\<lambda>col. fst col \<in> set cols) tbl) ''fare_amount'' = map_of tbl ''fare_amount''"
    by (simp_all add: map_of_usecols)
  then have "groupby_agg (filter (\<lambda>col. fst col \<in> set cols) tbl) = groupby_agg tbl"
    by (simp add: groupby_agg_def split: option.splits)
  then show ?thesis by (simp add: compute_def)
qed

section \<open>Summary statistics\<close>



section \<open>The warmup\<close>

lemma pandas_warmup_loop_reads:
  "for_loop xs (pandas_warmup_iteration csv_file usecols) () w = (Inr u, w')
   \<Longrightarrow> nreads w' = nreads w + length xs"
proof (induction xs arbitrary: w)
  case Nil
  then show ?case by simp
next
  case (Cons i rest)
  obtain r1 w1 where b: "pandas_warmup_iteration csv_file usecols i () w = (r1, w1)"
    by (cases "pandas_warmup_iteration csv_file usecols i () w")
  then have w1: "nreads w1 = Suc (nreads w)"
    by (auto simp: pandas_warmup_iteration_eq split: sum.splits)
  from Cons.prems b have "for_loop rest (pandas_warmup_iteration csv_file usecols) () w1 = (Inr u, w')"
    by (cases r1) auto
  from Cons.IH [OF this] w1 show ?case by simp
qed

lemma pandas_warmup_reads:
  assumes "pandas_warmup csv_file usecols warmup w = (Inr u, w')"
  shows "nreads w' = nreads w + nat warmup"
proof (cases "warmup > 0")
  case True
  with assms pandas_warmup_loop_reads [of "py_range warmup" csv_file usecols w u w']
  show ?thesis by (simp add: pandas_warmup_def py_range_def)
next
  case False
  with assms show ?thesis by (auto simp: pandas_warmup_def succeed_def)
qed

lemma clickhouse_warmup_loop_queries:
  "for_loop xs (clickhouse_warmup_iteration cl database table) () w = (Inr u, w')
   \<Longrightarrow> nqueries w' = nqueries w + length xs"
proof (induction xs arbitrary: w)
  case Nil
  then show ?case by simp
next
  case (Cons i rest)
  obtain r1 w1 where b: "clickhouse_warmup_iteration cl database table i () w = (r1, w1)"
    by (cases "clickhouse_warmup_iteration cl database table i () w")
  then have w1: "nqueries w1 = Suc (nqueries w)"
    by (auto simp: clickhouse_warmup_iteration_eq split: sum.splits)
  from Cons.prems b have "for_loop rest (clickhouse_warmup_iteration cl database table) () w1 = (Inr u, w')"
    by (cases r1) auto
  from Cons.IH [OF this] w1 show ?case by simp
qed

lemma clickhouse_warmup_queries:
  assumes "clickhouse_warmup cl database table warmup w = (Inr u, w')"
  shows "nqueries w' = nqueries w + nat warmup"
proof (cases "warmup > 0")
  case True
  with assms clickhouse_warmup_loop_queries [of "py_range warmup" cl database table w u w']
  show ?thesis by (simp add: clickhouse_warmup_def py_range_def)
next
  case False
  with assms show ?thesis by (auto simp: clickhouse_warmup_def succeed_def)
qed

lemma pandas_zero_iterations:
  "benchmark_pandas_approach csv_file output_file usecols 0 warmup w =
     (case pandas_warmup csv_file usecols warmup w of
        (Inl e, w1) \<Rightarrow> (Inl e, w1)
      | (Inr u, w1) \<Rightarrow> (Inl StatisticsError, w1))"
  by (simp add: benchmark_pandas_approach_def and_then_def pandas_measure_nonpositive
      pandas_summary_eq from_result_def split: prod.splits sum.splits)

lemma clickhouse_zero_iterations:
  "benchmark_clickhouse_approach cl database table output_file 0 warmup w =
     (case clickhouse_warmup cl database table warmup w of
        (Inl e, w1) \<Rightarrow> (Inl e, w1)
      | (Inr u, w1) \<Rightarrow> (Inl StatisticsError, w1))"
  by (simp add: benchmark_clickhouse_approach_def and_then_def clickhouse_measure_nonpositive
      clickhouse_summary_eq from_result_def split: prod.splits sum.splits)

section \<open>A measured iteration that fails\<close>

lemma py_range_split:
  assumes "k < nat n"
  shows "py_range n = [0..<k] @ k # [Suc k..<nat n]"
proof -
  from assms have "[0..<nat n] = [0..<k] @ [k..<nat n]"
    using upt_add_eq_append [of 0 k "nat n - k"] by simp
  moreover from assms have "[k..<nat n] = k # [Suc k..<nat n]"
    by (rule upt_conv_Cons)
  ultimately show ?thesis by (simp add: py_range_def)
qed

lemma for_loop_fails_at:
  assumes "for_loop xs body s0 w0 = (Inr s, w1)" and "body k s w1 = (Inl e, w2)"
  shows "for_loop (xs @ k # ys) body s0 w0 = (Inl e, w2)"
  using assms by (simp add: for_loop_append)

lemma pandas_run_fails_at:
  assumes wu: "pandas_warmup csv_file usecols warmup w = (Inr u, w0)"
    and k: "k < nat n"
    and pre: "for_loop [0..<k] (pandas_iteration csv_file output_file usecols n) ([], [], [], None) w0
              = (Inr s, w1)"
    and it: "pandas_iteration csv_file output_file usecols n k s w1 = (Inl e, w2)"
  shows "benchmark_pandas_approach csv_file output_file usecols n warmup w = (Inl e, w2)"
proof -
  from for_loop_fails_at [OF pre it]
  have "pandas_measure csv_file output_file usecols n w0 = (Inl e, w2)"
    by (simp add: pandas_measure_def py_range_split [OF k])
  with wu show ?thesis
    by (simp add: benchmark_pandas_approach_def and_then_def)
qed

lemma clickhouse_run_fails_at:
  assumes wu: "clickhouse_warmup cl database table warmup w = (Inr u, w0)"
    and k: "k < nat n"
    and pre: "for_loop [0..<k] (clickhouse_iteration cl database table output_file n) ([], [], [], None) w0
              = (Inr s, w1)"
    and it: "clickhouse_iteration cl database table output_file n k s w1 = (Inl e, w2)"
  shows "benchmark_clickhouse_approach cl database table output_file n warmup w = (Inl e, w2)"
proof -
  from for_loop_fails_at [OF pre it]
  have "clickhouse_measure cl database table output_file n w0 = (Inl e, w2)"
    by (simp add: clickhouse_measure_def py_range_split [OF k])
  with wu show ?thesis
    by (simp add: benchmark_clickhouse_approach_def and_then_def)
qed

lemma scenario_result_frame:
  "data_frame (run_query exact_client scenario_rows)
     [''passenger_count'', ''mean_fare'', ''median_fare'', ''variance_fare''] =
   Inr [(''passenger_count'', [Some 1, Some 2]), (''mean_fare'', [Some 15, Some 15]),
        (''median_fare'', [Some 15, Some 15]), (''variance_fare'', [Some 50, None])]"
  by (simp add: data_frame_run_query sql_group_keys_def group_keys_def group_values_def
      scenario_rows_def exact_client_def agg_mean_def agg_median_def agg_var_def
      kahan_add_def welford_step_def Let_def)

lemma flaky_two_iterations:
  "for_loop [0, 1]
     (clickhouse_iteration exact_client ''nyc_taxi'' ''trips_small'' ''results_clickhouse.csv'' 3)
     ([], [], [], None) flaky_world
   = (Inr ([1, 1], [1, 1], [2, 2],
           Some [(''passenger_count'', [Some 1, Some 2]), (''mean_fare'', [Some 15, Some 15]),
                 (''median_fare'', [Some 15, Some 15]), (''variance_fare'', [Some 50, None])]),
      flaky_world\<lparr>nticks := 8, nqueries := 2\<rparr>)"
  by (simp add: clickhouse_iteration_eq flaky_world_def scenario_world_def Let_def
      scenario_result_frame)

lemma flaky_third_iteration:
  "clickhouse_iteration exact_client ''nyc_taxi'' ''trips_small'' ''results_clickhouse.csv'' 3 2 s
     (flaky_world\<lparr>nticks := 8, nqueries := 2\<rparr>)
   = (Inl (ClientError ''unreachable''), flaky_world\<lparr>nticks := 9, nqueries := 3\<rparr>)"
proof -
  obtain q sv t d where s: "s = (q, sv, t, d)" using prod_cases4 by blast
  show ?thesis
    unfolding s
    by (simp add: clickhouse_iteration_eq flaky_world_def scenario_world_def Let_def)
qed

section \<open>The comparison\<close>

lemma for_loop_inv:
  assumes "for_loop xs body s w = (Inr s', w')" and "I s w"
    and "\<And>i s w s' w'. i \<in> set xs \<Longrightarrow> I s w \<Longrightarrow> body i s w = (Inr s', w') \<Longrightarrow> I s' w'"
  shows "I s' w'"
  using assms
proof (induction xs arbitrary: s w)
  case Nil
  then show ?case by simp
next
  case (Cons i rest)
  obtain r1 w1 where b: "body i s w = (r1, w1)" by (cases "body i s w")
  show ?case
  proof (cases r1)
    case (Inl e)
    with Cons.prems(1) b show ?thesis by simp
  next
    case (Inr s1)
    with Cons.prems(1) b have l: "for_loop rest body s1 w1 = (Inr s', w')" by simp
    have "I s1 w1" using Cons.prems(2,3) b Inr by (meson list.set_intros(1))
    then show ?thesis
      using Cons.IH l Cons.prems(3) by (meson list.set_intros(2))
  qed
qed

lemma pandas_iteration_surroundings:
  assumes "pandas_iteration csv_file output_file usecols n i s w = (x, w')"
  shows "same_surroundings w w'"
proof -
  obtain l c t d where s: "s = (l, c, t, d)" using prod_cases4 by blast
  from assms show ?thesis
    unfolding s pandas_iteration_eq
    by (auto simp: Let_def same_surroundings_def split: sum.splits if_splits)
qed

lemma clickhouse_iteration_surroundings:
  assumes "clickhouse_iteration cl database table output_file n i s w = (x, w')"
  shows "same_surroundings w w'"
proof -
  obtain l c t d where s: "s = (l, c, t, d)" using prod_cases4 by blast
  from assms show ?thesis
    unfolding s clickhouse_iteration_eq
    by (auto simp: Let_def same_surroundings_def split: sum.splits if_splits)
qed

lemma pandas_measure_surroundings:
  assumes "pandas_measure csv_file output_file usecols n w = (x, w')"
  shows "same_surroundings w w'"
proof -
  from assms have l: "for_loop (py_range n) (pandas_iteration csv_file output_file usecols n)
      ([], [], [], None) w = (x, w')" by (simp add: pandas_measure_def)
  show ?thesis
  proof (rule for_loop_world_inv [OF l, where P = "same_surroundings w"])
    show "same_surroundings w w" by (simp add: same_surroundings_def)
  next
    fix i s wa r wb
    assume "same_surroundings w wa"
      and "pandas_iteration csv_file output_file usecols n i s wa = (r, wb)"
    with pandas_iteration_surroundings show "same_surroundings w wb"
      by (fastforce simp: same_surroundings_def)
  qed
qed

lemma clickhouse_measure_surroundings:
  assumes "clickhouse_measure cl database table output_file n w = (x, w')"
  shows "same_surroundings w w'"
proof -
  from assms have l: "for_loop (py_range n) (clickhouse_iteration cl database table output_file n)
      ([], [], [], None) w = (x, w')" by (simp add: clickhouse_measure_def)
  show ?thesis
  proof (rule for_loop_world_inv [OF l, where P = "same_surroundings w"])
    show "same_surroundings w w" by (simp add: same_surroundings_def)
  next
    fix i s wa r wb
    assume "same_surroundings w wa"
      and "clickhouse_iteration cl database table output_file n i s wa = (r, wb)"
    with clickhouse_iteration_surroundings show "same_surroundings w wb"
      by (fastforce simp: same_surroundings_def)
  qed
qed

lemma pandas_run_surroundings:
  assumes run: "benchmark_pandas_approach csv_file output_file usecols n warmup w = (Inr r, w')"
  shows "same_surroundings w w'"
proof -
  from run obtain w1 l c t d where wu: "pandas_warmup csv_file usecols warmup w = (Inr (), w1)"
    and m: "pandas_measure csv_file output_file usecols n w1 = (Inr (l, c, t, d), w')"
    by (rule benchmark_pandas_Inr)
  from pandas_warmup_frame [OF wu] pandas_measure_surroundings [OF m] show ?thesis
    by (simp add: same_surroundings_def outside_unchanged_def)
qed

text \<open>
  With a clock that advances by \<open>d\<close> between any two readings, every total sample is the
  float sum of two phase samples \<open>double_round d\<close>, and so is their mean.
\<close>

lemma clickhouse_uniform_total:
  assumes run: "benchmark_clickhouse_approach cl database table output_file n warmup w = (Inr r, w')"
    and uniform: "\<forall>k. ticks w (Suc k) - ticks w k = d"
  shows "ch_total_mean r = double_round (double_round (double_round d + double_round d))"
proof -
  from run obtain w1 q sv t d0 where wu: "clickhouse_warmup cl database table warmup w = (Inr (), w1)"
    and m: "clickhouse_measure cl database table output_file n w1 = (Inr (q, sv, t, d0), w')"
    and s: "clickhouse_summary (q, sv, t, d0) = Inr r"
    by (rule benchmark_clickhouse_Inr)
  from clickhouse_warmup_frame [OF wu] have f1: "ticks w1 = ticks w"
    by (simp add: outside_unchanged_def)
  let ?T = "double_round (double_round d + double_round d)"
  let ?I = "\<lambda>(s :: samples) v. ticks v = ticks w \<and> (case s of (q, sv, t, d0) \<Rightarrow> \<forall>x \<in> set t. x = ?T)"
  from m have l: "for_loop (py_range n) (clickhouse_iteration cl database table output_file n)
      ([], [], [], None) w1 = (Inr (q, sv, t, d0), w')" by (simp add: clickhouse_measure_def)
  have "?I (q, sv, t, d0) w'"
  proof (rule for_loop_inv [OF l, where I = ?I])
    show "?I ([], [], [], None) w1" using f1 by simp
  next
    fix i s v s' v'
    assume inv: "?I s v"
      and b: "clickhouse_iteration cl database table output_file n i s v = (Inr s', v')"
    obtain q1 sv1 t1 d1 where s1: "s = (q1, sv1, t1, d1)" using prod_cases4 by blast
    from uniform have u: "ticks w (nticks v + 1) - ticks w (nticks v) = d"
      "ticks w (nticks v + 3) - ticks w (nticks v + 2) = d"
      by (simp_all add: eval_nat_numeral)
    from b inv u show "?I s' v'"
      unfolding s1 clickhouse_iteration_eq
      by (auto simp: Let_def split: sum.splits if_splits)
  qed
  then have "\<forall>x \<in> set t. x = ?T" by simp
  then have "sum_list t = ?T * real (length t)"
    by (induction t) (simp_all add: algebra_simps)
  with s show ?thesis
    by (auto simp: clickhouse_summary_eq split: if_splits)
qed

lemma main_returns:
  assumes "benchmark_pandas_approach (args_csv_input a) (args_csv_output_pandas a)
             (Some [''fare_amount'', ''passenger_count'']) (args_iterations a) (args_warmup a) w
           = (Inr p1, w1)"
    and "benchmark_pandas_approach (args_csv_input a)
             (py_replace ''.csv'' ''_full.csv'' (args_csv_output_pandas a)) None
             (args_iterations a) (args_warmup a) w1 = (Inr p2, w2)"
    and "benchmark_clickhouse_approach cl (args_database a) (args_table a)
             (args_csv_output_clickhouse a) (args_iterations a) (args_warmup a) w2 = (Inr c, w3)"
  shows "main cl a w = (speedups p1 p2 c, w3)"
  using assms by (simp add: main_def and_then_def from_result_def)

lemma speedups_eq:
  "speedups p1 p2 c =
     (if ch_total_mean c = 0 then Inl ZeroDivisionError
      else Inr \<lparr>speedup_selective = double_round (total_mean p1 / ch_total_mean c),
                speedup_full = double_round (total_mean p2 / ch_total_mean c),
                saved_selective = double_round (total_mean p1 - ch_total_mean c),
                saved_full = double_round (total_mean p2 - ch_total_mean c)\<rparr>)"
  by (simp add: speedups_def py_truediv_def bind_result_def)

lemma replace_full:
  "py_replace ''.csv'' ''_full.csv'' ''results_pandas.csv'' = ''results_pandas_full.csv''"
  by code_simp

section \<open>Double arithmetic: rounding a fraction\<close>











section \<open>The values of a group, the middle of a list\<close>



section \<open>The two paths on the same data\<close>









section \<open>Claims\<close>

text \<open>
  C3. For every iteration count of at least 1 and every warmup count of at least 0, a run of
  either path that returns has recorded exactly \<open>iterations\<close> timing samples for each phase
  and for the total, whatever the warmup count; and the run does return when its
  collaborators do not fail (the input file is there with the two columns and the output
  path can be written; every query is answered).
\<close>

theorem measured_samples_count:
  assumes "1 \<le> iterations" and "0 \<le> warmup"
  shows "(benchmark_pandas_approach csv_file output_file usecols iterations warmup w = (Inr r, w') \<longrightarrow>
            length (load_times r) = nat iterations \<and>
            length (compute_times r) = nat iterations \<and>
            length (total_times r) = nat iterations)
       \<and> (benchmark_clickhouse_approach cl database table ch_output_file iterations warmup v = (Inr r2, v') \<longrightarrow>
            length (query_times r2) = nat iterations \<and>
            length (save_times r2) = nat iterations \<and>
            length (ch_total_times r2) = nat iterations)
       \<and> (csv_table (files w csv_file) csv_file (if truthy usecols then usecols else None) = Inr df
            \<and> compute df = Inr g \<and> output_file \<notin> set (unwritable w) \<longrightarrow>
          (\<exists>r w'. benchmark_pandas_approach csv_file output_file usecols iterations warmup w = (Inr r, w')))
       \<and> ((\<forall>k. \<exists>rows. remote v database table k = Inr rows)
            \<and> ch_output_file \<notin> set (unwritable v) \<longrightarrow>
          (\<exists>r2 v'. benchmark_clickhouse_approach cl database table ch_output_file iterations warmup v
                     = (Inr r2, v')))"
proof (intro conjI impI)
  assume run: "benchmark_pandas_approach csv_file output_file usecols iterations warmup w = (Inr r, w')"
  show "length (load_times r) = nat iterations" by (rule pandas_run_facts(3) [OF run])
  show "length (compute_times r) = nat iterations" by (rule pandas_run_facts(4) [OF run])
  show "length (total_times r) = nat iterations" by (rule pandas_run_facts(5) [OF run])
next
  assume run: "benchmark_clickhouse_approach cl database table ch_output_file iterations warmup v = (Inr r2, v')"
  show "length (query_times r2) = nat iterations" by (rule clickhouse_run_facts(3) [OF run])
  show "length (save_times r2) = nat iterations" by (rule clickhouse_run_facts(4) [OF run])
  show "length (ch_total_times r2) = nat iterations" by (rule clickhouse_run_facts(5) [OF run])
next
  assume "csv_table (files w csv_file) csv_file (if truthy usecols then usecols else None) = Inr df
            \<and> compute df = Inr g \<and> output_file \<notin> set (unwritable w)"
  then show "\<exists>r w'. benchmark_pandas_approach csv_file output_file usecols iterations warmup w = (Inr r, w')"
    using pandas_run_ok assms(1) by blast
next
  assume "(\<forall>k. \<exists>rows. remote v database table k = Inr rows) \<and> ch_output_file \<notin> set (unwritable v)"
  then show "\<exists>r2 v'. benchmark_clickhouse_approach cl database table ch_output_file iterations warmup v
                     = (Inr r2, v')"
    using clickhouse_run_ok assms(1) by blast
qed

theorem measured_samples_count_witness:
  "\<exists>r w' r2 v'.
     benchmark_pandas_approach ''data/nyc_taxi_data.csv'' ''results_pandas.csv'' None 3 2 scenario_world
       = (Inr r, w')
     \<and> length (load_times r) = 3 \<and> length (compute_times r) = 3 \<and> length (total_times r) = 3
     \<and> benchmark_clickhouse_approach exact_client ''nyc_taxi'' ''trips_small'' ''results_clickhouse.csv''
          3 2 scenario_world = (Inr r2, v')
     \<and> length (query_times r2) = 3 \<and> length (save_times r2) = 3 \<and> length (ch_total_times r2) = 3"
proof -
  have i: "(1::int) \<le> 3" and u: "(0::int) \<le> 2" by simp_all
  have t: "csv_table (files scenario_world ''data/nyc_taxi_data.csv'') ''data/nyc_taxi_data.csv''
      (if truthy None then None else None) = Inr scenario_csv"
    by (simp add: scenario_table)
  note all = measured_samples_count [OF i u, where csv_file = "''data/nyc_taxi_data.csv''"
      and output_file = "''results_pandas.csv''" and usecols = None and w = scenario_world
      and cl = exact_client and database = "''nyc_taxi''" and table = "''trips_small''"
      and ch_output_file = "''results_clickhouse.csv''" and v = scenario_world
      and df = scenario_csv]
  from all t scenario_compute scenario_writable obtain r w' where
    p: "benchmark_pandas_approach ''data/nyc_taxi_data.csv'' ''results_pandas.csv'' None 3 2 scenario_world
       = (Inr r, w')" by blast
  from all scenario_remote scenario_writable obtain r2 v' where
    c: "benchmark_clickhouse_approach exact_client ''nyc_taxi'' ''trips_small'' ''results_clickhouse.csv''
          3 2 scenario_world = (Inr r2, v')" by blast
  from all [where r = r and w' = w' and ?r2.0 = r2 and v' = v'] p c
  show ?thesis by simp
qed

text \<open>
  C5. With an iteration count of at least 1, the output file is written once per run of a
  path, by the last measured iteration: the warmup writes nothing, a measured iteration
  other than the last writes nothing, the last one, when it succeeds, makes exactly one write
  to the output path, a run that returns has made exactly that one write, and a run that
  fails has written nothing.
\<close>

theorem output_written_once_on_last_iteration:
  assumes "1 \<le> iterations"
  shows "(pandas_warmup csv_file usecols warmup w = (x, w1) \<longrightarrow>
            writes w1 = writes w \<and> files w1 = files w)
       \<and> (int i \<noteq> iterations - 1
            \<and> pandas_iteration csv_file output_file usecols iterations i s w = (y, w2) \<longrightarrow>
            writes w2 = writes w \<and> files w2 = files w)
       \<and> (int i = iterations - 1
            \<and> pandas_iteration csv_file output_file usecols iterations i s w = (Inr s', w3) \<longrightarrow>
            (\<exists>g. writes w3 = writes w @ [(output_file, g)]))
       \<and> (benchmark_pandas_approach csv_file output_file usecols iterations warmup w = (Inr r, w') \<longrightarrow>
            (\<exists>g. writes w' = writes w @ [(output_file, g)]))
       \<and> (benchmark_pandas_approach csv_file output_file usecols iterations warmup w = (Inl e, w'') \<longrightarrow>
            writes w'' = writes w \<and> files w'' = files w)
       \<and> (clickhouse_warmup cl database table warmup v = (x, v1) \<longrightarrow>
            writes v1 = writes v \<and> files v1 = files v)
       \<and> (int i \<noteq> iterations - 1
            \<and> clickhouse_iteration cl database table ch_output_file iterations i s v = (y, v2) \<longrightarrow>
            writes v2 = writes v \<and> files v2 = files v)
       \<and> (int i = iterations - 1
            \<and> clickhouse_iteration cl database table ch_output_file iterations i s v = (Inr s'', v3) \<longrightarrow>
            (\<exists>g. writes v3 = writes v @ [(ch_output_file, g)]))
       \<and> (benchmark_clickhouse_approach cl database table ch_output_file iterations warmup v = (Inr r2, v') \<longrightarrow>
            (\<exists>g. writes v' = writes v @ [(ch_output_file, g)]))
       \<and> (benchmark_clickhouse_approach cl database table ch_output_file iterations warmup v = (Inl e2, v'') \<longrightarrow>
            writes v'' = writes v \<and> files v'' = files v)"
proof -
  obtain l c t d where s: "s = (l, c, t, d)" using prod_cases4 by blast
  have a: "pandas_warmup csv_file usecols warmup w = (x, w1) \<longrightarrow>
      writes w1 = writes w \<and> files w1 = files w"
    using pandas_warmup_frame by (auto simp: outside_unchanged_def)
  have b: "int i \<noteq> iterations - 1
       \<and> pandas_iteration csv_file output_file usecols iterations i s w = (y, w2) \<longrightarrow>
       writes w2 = writes w \<and> files w2 = files w"
  proof (intro impI, elim conjE)
    assume ne: "int i \<noteq> iterations - 1"
      and it: "pandas_iteration csv_file output_file usecols iterations i s w = (y, w2)"
    from pandas_iteration_frame [OF it ne] show "writes w2 = writes w \<and> files w2 = files w"
      by (simp add: outside_unchanged_def)
  qed
  have c: "int i = iterations - 1
       \<and> pandas_iteration csv_file output_file usecols iterations i s w = (Inr s', w3) \<longrightarrow>
       (\<exists>g. writes w3 = writes w @ [(output_file, g)])"
    unfolding s pandas_iteration_eq
    by (auto simp: Let_def split: sum.splits if_splits)
  have d: "benchmark_pandas_approach csv_file output_file usecols iterations warmup w = (Inr r, w') \<longrightarrow>
       (\<exists>g. writes w' = writes w @ [(output_file, g)])"
    using pandas_run_facts(2) by blast
  have e: "benchmark_pandas_approach csv_file output_file usecols iterations warmup w = (Inl e, w'') \<longrightarrow>
       writes w'' = writes w \<and> files w'' = files w"
    using pandas_run_Inl by (auto simp: outside_unchanged_def)
  have a': "clickhouse_warmup cl database table warmup v = (x, v1) \<longrightarrow>
      writes v1 = writes v \<and> files v1 = files v"
    using clickhouse_warmup_frame by (auto simp: outside_unchanged_def)
  have b': "int i \<noteq> iterations - 1
       \<and> clickhouse_iteration cl database table ch_output_file iterations i s v = (y, v2) \<longrightarrow>
       writes v2 = writes v \<and> files v2 = files v"
  proof (intro impI, elim conjE)
    assume ne: "int i \<noteq> iterations - 1"
      and it: "clickhouse_iteration cl database table ch_output_file iterations i s v = (y, v2)"
    from clickhouse_iteration_frame [OF it ne] show "writes v2 = writes v \<and> files v2 = files v"
      by (simp add: outside_unchanged_def)
  qed
  have c': "int i = iterations - 1
       \<and> clickhouse_iteration cl database table ch_output_file iterations i s v = (Inr s'', v3) \<longrightarrow>
       (\<exists>g. writes v3 = writes v @ [(ch_output_file, g)])"
    unfolding s clickhouse_iteration_eq
    by (auto simp: Let_def split: sum.splits if_splits)
  have d': "benchmark_clickhouse_approach cl database table ch_output_file iterations warmup v = (Inr r2, v') \<longrightarrow>
       (\<exists>g. writes v' = writes v @ [(ch_output_file, g)])"
    using clickhouse_run_facts(2) by blast
  have e': "benchmark_clickhouse_approach cl database table ch_output_file iterations warmup v = (Inl e2, v'') \<longrightarrow>
       writes v'' = writes v \<and> files v'' = files v"
    using clickhouse_run_Inl by (auto simp: outside_unchanged_def)
  from a b c d e a' b' c' d' e' show ?thesis by blast
qed

theorem output_written_once_on_last_iteration_witness:
  "(\<exists>r w' g. benchmark_pandas_approach ''data/nyc_taxi_data.csv'' ''results_pandas.csv'' None 3 2
        scenario_world = (Inr r, w') \<and> writes w' = [(''results_pandas.csv'', g)])
   \<and> (\<exists>e w''. benchmark_pandas_approach ''missing.csv'' ''results_pandas.csv'' None 3 2
        scenario_world = (Inl e, w'') \<and> writes w'' = [])
   \<and> writes (snd (pandas_warmup ''data/nyc_taxi_data.csv'' None 2 scenario_world)) = []
   \<and> writes (snd (pandas_iteration ''data/nyc_taxi_data.csv'' ''results_pandas.csv'' None 3 0
        ([], [], [], None) scenario_world)) = []
   \<and> (\<exists>g. writes (snd (pandas_iteration ''data/nyc_taxi_data.csv'' ''results_pandas.csv'' None 3 2
        ([], [], [], None) scenario_world)) = [(''results_pandas.csv'', g)])
   \<and> (\<exists>r w' g. benchmark_clickhouse_approach exact_client ''nyc_taxi'' ''trips_small''
        ''results_clickhouse.csv'' 3 2 scenario_world = (Inr r, w')
        \<and> writes w' = [(''results_clickhouse.csv'', g)])
   \<and> (\<exists>e w''. benchmark_clickhouse_approach exact_client ''nyc_taxi'' ''trips_small''
        ''results_clickhouse.csv'' 3 0 flaky_world = (Inl e, w'') \<and> writes w'' = [])
   \<and> writes (snd (clickhouse_warmup exact_client ''nyc_taxi'' ''trips_small'' 2 scenario_world)) = []
   \<and> writes (snd (clickhouse_iteration exact_client ''nyc_taxi'' ''trips_small''
        ''results_clickhouse.csv'' 3 0 ([], [], [], None) scenario_world)) = []
   \<and> (\<exists>g. writes (snd (clickhouse_iteration exact_client ''nyc_taxi'' ''trips_small''
        ''results_clickhouse.csv'' 3 2 ([], [], [], None) scenario_world)) = [(''results_clickhouse.csv'', g)])"
proof -
  let ?D = "''data/nyc_taxi_data.csv''" and ?P = "''results_pandas.csv''"
  let ?C = "''results_clickhouse.csv''" and ?db = "''nyc_taxi''" and ?tb = "''trips_small''"
  have i3: "(1::int) \<le> 3" by simp
  note T = output_written_once_on_last_iteration [OF i3]
  have w0: "writes scenario_world = []" "writes flaky_world = []"
    by (simp_all add: scenario_world_def flaky_world_def)
  have t: "csv_table (files scenario_world ?D) ?D (if truthy None then None else None) = Inr scenario_csv"
    by (simp add: scenario_table)
  \<comment> \<open>the pandas path\<close>
  from pandas_run_ok [OF t scenario_compute scenario_writable i3] obtain r w' where
    run: "benchmark_pandas_approach ?D ?P None 3 2 scenario_world = (Inr r, w')" by blast
  with T [where csv_file = ?D and output_file = ?P and usecols = None and warmup = 2
      and w = scenario_world and r = r and w' = w'] w0
  have p1: "\<exists>r w' g. benchmark_pandas_approach ?D ?P None 3 2 scenario_world = (Inr r, w')
      \<and> writes w' = [(?P, g)]" by auto
  have "fst (benchmark_pandas_approach ''missing.csv'' ?P None 3 2 scenario_world)
      = Inl (FileNotFoundError ''missing.csv'')"
    by (simp add: benchmark_pandas_approach_def pandas_warmup_def and_then_def py_range_def
        upt_rec pandas_warmup_iteration_eq scenario_missing)
  then obtain w'' where bad: "benchmark_pandas_approach ''missing.csv'' ?P None 3 2 scenario_world
      = (Inl (FileNotFoundError ''missing.csv''), w'')"
    by (metis prod.collapse)
  with T [where csv_file = "''missing.csv''" and output_file = ?P and usecols = None and warmup = 2
      and w = scenario_world and e = "FileNotFoundError ''missing.csv''" and w'' = w''] w0
  have p2: "\<exists>e w''. benchmark_pandas_approach ''missing.csv'' ?P None 3 2 scenario_world = (Inl e, w'')
      \<and> writes w'' = []" by auto
  from T [where csv_file = ?D and usecols = None and warmup = 2 and w = scenario_world
      and x = "fst (pandas_warmup ?D None 2 scenario_world)"
      and ?w1.0 = "snd (pandas_warmup ?D None 2 scenario_world)"] w0
  have p3: "writes (snd (pandas_warmup ?D None 2 scenario_world)) = []" by simp
  let ?it0 = "pandas_iteration ?D ?P None 3 0 ([], [], [], None) scenario_world"
  from T [where csv_file = ?D and output_file = ?P and usecols = None and w = scenario_world
      and i = 0 and s = "([], [], [], None)" and y = "fst ?it0" and ?w2.0 = "snd ?it0"] w0
  have p4: "writes (snd ?it0) = []" by simp
  let ?it2 = "pandas_iteration ?D ?P None 3 2 ([], [], [], None) scenario_world"
  have "\<exists>s'. fst ?it2 = Inr s'"
    by (simp add: pandas_iteration_eq scenario_table scenario_compute scenario_writable
        truthy_def Let_def)
  then obtain s' where "?it2 = (Inr s', snd ?it2)" by (metis prod.collapse)
  with T [where csv_file = ?D and output_file = ?P and usecols = None and w = scenario_world
      and i = 2 and s = "([], [], [], None)" and s' = s' and ?w3.0 = "snd ?it2"] w0
  have p5: "\<exists>g. writes (snd ?it2) = [(?P, g)]" by simp
  \<comment> \<open>the ClickHouse path\<close>
  from clickhouse_run_ok [OF scenario_remote scenario_writable i3] obtain r2 v' where
    run2: "benchmark_clickhouse_approach exact_client ?db ?tb ?C 3 2 scenario_world = (Inr r2, v')"
    by blast
  with T [where cl = exact_client and database = ?db and table = ?tb and ch_output_file = ?C
      and warmup = 2 and v = scenario_world and ?r2.0 = r2 and v' = v'] w0
  have c1: "\<exists>r w' g. benchmark_clickhouse_approach exact_client ?db ?tb ?C 3 2 scenario_world = (Inr r, w')
      \<and> writes w' = [(?C, g)]" by auto
  have bad2: "benchmark_clickhouse_approach exact_client ?db ?tb ?C 3 0 flaky_world
      = (Inl (ClientError ''unreachable''), flaky_world\<lparr>nticks := 9, nqueries := 3\<rparr>)"
    by (simp add: benchmark_clickhouse_approach_def clickhouse_warmup_def clickhouse_measure_def
        and_then_def succeed_def py_range_3 clickhouse_iteration_eq flaky_world_def scenario_world_def
        Let_def data_frame_run_query)
  with T [where cl = exact_client and database = ?db and table = ?tb and ch_output_file = ?C
      and warmup = 0 and v = flaky_world and ?e2.0 = "ClientError ''unreachable''"
      and v'' = "flaky_world\<lparr>nticks := 9, nqueries := 3\<rparr>"] w0
  have c2: "\<exists>e w''. benchmark_clickhouse_approach exact_client ?db ?tb ?C 3 0 flaky_world = (Inl e, w'')
      \<and> writes w'' = []" by auto
  let ?wu = "clickhouse_warmup exact_client ?db ?tb 2 scenario_world"
  from T [where cl = exact_client and database = ?db and table = ?tb and warmup = 2
      and v = scenario_world and x = "fst ?wu" and ?v1.0 = "snd ?wu"] w0
  have c3: "writes (snd ?wu) = []" by simp
  let ?ci0 = "clickhouse_iteration exact_client ?db ?tb ?C 3 0 ([], [], [], None) scenario_world"
  from T [where cl = exact_client and database = ?db and table = ?tb and ch_output_file = ?C
      and v = scenario_world and i = 0 and s = "([], [], [], None)" and y = "fst ?ci0"
      and ?v2.0 = "snd ?ci0"] w0
  have c4: "writes (snd ?ci0) = []" by simp
  let ?ci2 = "clickhouse_iteration exact_client ?db ?tb ?C 3 2 ([], [], [], None) scenario_world"
  have "\<exists>s'. fst ?ci2 = Inr s'"
    by (simp add: clickhouse_iteration_eq scenario_world_def data_frame_run_query Let_def)
  then obtain s'' where "?ci2 = (Inr s'', snd ?ci2)" by (metis prod.collapse)
  with T [where cl = exact_client and database = ?db and table = ?tb and ch_output_file = ?C
      and v = scenario_world and i = 2 and s = "([], [], [], None)" and s'' = s''
      and ?v3.0 = "snd ?ci2"] w0
  have c5: "\<exists>g. writes (snd ?ci2) = [(?C, g)]" by simp
  from p1 p2 p3 p4 p5 c1 c2 c3 c4 c5 show ?thesis by blast
qed







text \<open>
  C9, as the specification states it: the header row of the output file is the template
  \<open><group_key_column>,mean_<value>,median_<value>,variance_<value>\<close> for the group key
  \<open>passenger_count\<close> and the value column \<open>fare_amount\<close>, that is
  \<open>passenger_count,mean_fare_amount,median_fare_amount,variance_fare_amount\<close>. In the
  scenario world a run of either path with one iteration returns, and the header of the file
  it has written is \<open>passenger_count,mean_fare,median_fare,variance_fare\<close>.
\<close>

theorem output_header_fare_amount_counterexample:
  "\<not> isl (fst (benchmark_pandas_approach ''data/nyc_taxi_data.csv'' ''results_pandas.csv'' None 1 0
        scenario_world))
   \<and> map_option header
        (files (snd (benchmark_pandas_approach ''data/nyc_taxi_data.csv'' ''results_pandas.csv'' None 1 0
           scenario_world)) ''results_pandas.csv'')
      = Some [''passenger_count'', ''mean_fare'', ''median_fare'', ''variance_fare'']
   \<and> \<not> isl (fst (benchmark_clickhouse_approach exact_client ''nyc_taxi'' ''trips_small''
        ''results_clickhouse.csv'' 1 0 scenario_world))
   \<and> map_option header
        (files (snd (benchmark_clickhouse_approach exact_client ''nyc_taxi'' ''trips_small''
           ''results_clickhouse.csv'' 1 0 scenario_world)) ''results_clickhouse.csv'')
      = Some [''passenger_count'', ''mean_fare'', ''median_fare'', ''variance_fare'']
   \<and> [''passenger_count'', ''mean_fare'', ''median_fare'', ''variance_fare'']
      \<noteq> [''passenger_count'', ''mean_fare_amount'', ''median_fare_amount'', ''variance_fare_amount'']"
proof -
  let ?D = "''data/nyc_taxi_data.csv''" and ?P = "''results_pandas.csv''"
  let ?C = "''results_clickhouse.csv''" and ?db = "''nyc_taxi''" and ?tb = "''trips_small''"
  have i: "(1::int) \<le> 1" by simp
  have t: "csv_table (files scenario_world ?D) ?D (if truthy None then None else None) = Inr scenario_csv"
    by (simp add: scenario_table)
  from pandas_run_ok [OF t scenario_compute scenario_writable i] obtain r w' where
    run: "benchmark_pandas_approach ?D ?P None 1 0 scenario_world = (Inr r, w')" by blast
  from pandas_run_facts(2) [OF run] t scenario_compute
  have "files w' ?P = Some [(''passenger_count'', [Some 1, Some 2]), (''mean_fare'', [Some 15, Some 15]),
          (''median_fare'', [Some 15, Some 15]), (''variance_fare'', [Some 50, None])]"
    by auto
  with run have p: "\<not> isl (fst (benchmark_pandas_approach ?D ?P None 1 0 scenario_world))
      \<and> map_option header (files (snd (benchmark_pandas_approach ?D ?P None 1 0 scenario_world)) ?P)
        = Some [''passenger_count'', ''mean_fare'', ''median_fare'', ''variance_fare'']"
    by (simp add: header_def)
  from clickhouse_run_ok [OF scenario_remote scenario_writable i] obtain r2 v' where
    run2: "benchmark_clickhouse_approach exact_client ?db ?tb ?C 1 0 scenario_world = (Inr r2, v')"
    by blast
  from clickhouse_run_facts(2) [OF run2] obtain k rows g where
    q: "remote scenario_world ?db ?tb k = Inr rows"
    and d: "data_frame (run_query exact_client rows)
               [''passenger_count'', ''mean_fare'', ''median_fare'', ''variance_fare''] = Inr g"
    and f: "files v' = (files scenario_world)(?C \<mapsto> g)"
    by blast
  from d have "header g = [''passenger_count'', ''mean_fare'', ''median_fare'', ''variance_fare'']"
    by (auto simp: data_frame_run_query header_def)
  with f run2 have c: "\<not> isl (fst (benchmark_clickhouse_approach exact_client ?db ?tb ?C 1 0 scenario_world))
      \<and> map_option header
          (files (snd (benchmark_clickhouse_approach exact_client ?db ?tb ?C 1 0 scenario_world)) ?C)
        = Some [''passenger_count'', ''mean_fare'', ''median_fare'', ''variance_fare'']"
    by simp
  have "[''passenger_count'', ''mean_fare'', ''median_fare'', ''variance_fare'']
      \<noteq> [''passenger_count'', ''mean_fare_amount'', ''median_fare_amount'', ''variance_fare_amount'']"
    by simp
  with p c show ?thesis by blast
qed

text \<open>
  C9, amended: after a run of either path that returns, the output file holds a table whose
  header is \<open>passenger_count, mean_fare, median_fare, variance_fare\<close>, followed by one row
  per distinct key of the data, the keys ascending: for the pandas path the keys of the rows
  of the input file that have a key; for the ClickHouse path the keys of the rows of the
  remote table, a NULL key, if there is one, being a key of its own that comes last.
\<close>

theorem output_file_header_and_rows:
  "(benchmark_pandas_approach csv_file output_file usecols iterations warmup w = (Inr r, w') \<longrightarrow>
      (\<exists>out df ks vs keys.
          files w' output_file = Some out
        \<and> header out = [''passenger_count'', ''mean_fare'', ''median_fare'', ''variance_fare'']
        \<and> csv_table (files w csv_file) csv_file (if truthy usecols then usecols else None) = Inr df
        \<and> map_of df ''passenger_count'' = Some ks \<and> map_of df ''fare_amount'' = Some vs
        \<and> map hd (data_rows out) = map Some keys \<and> length (data_rows out) = length keys
        \<and> sorted keys \<and> distinct keys \<and> set keys = {k. Some k \<in> fst ` set (zip ks vs)}))
   \<and> (benchmark_clickhouse_approach cl database table ch_output_file iterations warmup v = (Inr r2, v') \<longrightarrow>
      (\<exists>out k rows keys.
          files v' ch_output_file = Some out
        \<and> header out = [''passenger_count'', ''mean_fare'', ''median_fare'', ''variance_fare'']
        \<and> remote v database table k = Inr rows
        \<and> map hd (data_rows out) = map Some keys @ (if None \<in> fst ` set rows then [None] else [])
        \<and> length (data_rows out) = length (map hd (data_rows out))
        \<and> distinct (map hd (data_rows out)) \<and> set (map hd (data_rows out)) = fst ` set rows
        \<and> sorted keys \<and> distinct keys \<and> set keys = {k. Some k \<in> fst ` set rows}))"
proof (intro conjI impI)
  assume run: "benchmark_pandas_approach csv_file output_file usecols iterations warmup w = (Inr r, w')"
  from pandas_run_facts(2) [OF run] obtain df g where
    t: "csv_table (files w csv_file) csv_file (if truthy usecols then usecols else None) = Inr df"
    and c: "compute df = Inr g" and f: "files w' = (files w)(output_file \<mapsto> g)"
    by blast
  from c obtain ks vs where k: "map_of df ''passenger_count'' = Some ks"
    and v: "map_of df ''fare_amount'' = Some vs"
    by (rule compute_Inr)
  let ?keys = "group_keys (zip ks vs)"
  from compute_eq [OF k v] c have g: "g =
     [(''passenger_count'', map Some ?keys),
      (''mean_fare'', map (\<lambda>k. agg_mean double_round (group_values (zip ks vs) (Some k))) ?keys),
      (''median_fare'', map (\<lambda>k. agg_median double_round (group_values (zip ks vs) (Some k))) ?keys),
      (''variance_fare'', map (\<lambda>k. agg_var double_round (group_values (zip ks vs) (Some k))) ?keys)]"
    by simp
  have "files w' output_file = Some g" by (simp add: f)
  moreover have "header g = [''passenger_count'', ''mean_fare'', ''median_fare'', ''variance_fare'']"
    by (simp add: g header_def)
  moreover have "map hd (data_rows g) = map Some ?keys" "length (data_rows g) = length ?keys"
    unfolding g by (simp_all only: data_rows_first_column length_data_rows length_map)
  moreover have "sorted ?keys" "distinct ?keys" "set ?keys = {k. Some k \<in> fst ` set (zip ks vs)}"
    by (rule group_keys_sorted, rule group_keys_distinct, rule set_group_keys)
  ultimately show "\<exists>out df ks vs keys.
          files w' output_file = Some out
        \<and> header out = [''passenger_count'', ''mean_fare'', ''median_fare'', ''variance_fare'']
        \<and> csv_table (files w csv_file) csv_file (if truthy usecols then usecols else None) = Inr df
        \<and> map_of df ''passenger_count'' = Some ks \<and> map_of df ''fare_amount'' = Some vs
        \<and> map hd (data_rows out) = map Some keys \<and> length (data_rows out) = length keys
        \<and> sorted keys \<and> distinct keys \<and> set keys = {k. Some k \<in> fst ` set (zip ks vs)}"
    using t k v by blast
next
  assume run: "benchmark_clickhouse_approach cl database table ch_output_file iterations warmup v = (Inr r2, v')"
  from clickhouse_run_facts(2) [OF run] obtain k rows g where
    q: "remote v database table k = Inr rows"
    and d: "data_frame (run_query cl rows)
               [''passenger_count'', ''mean_fare'', ''median_fare'', ''variance_fare''] = Inr g"
    and f: "files v' = (files v)(ch_output_file \<mapsto> g)"
    by blast
  let ?keys = "group_keys rows"
  from d have g: "g = [(''passenger_count'', sql_group_keys rows),
        (''mean_fare'', map (\<lambda>k. avg cl (group_values rows k)) (sql_group_keys rows)),
        (''median_fare'', map (\<lambda>k. quantile_half cl (group_values rows k)) (sql_group_keys rows)),
        (''variance_fare'', map (\<lambda>k. varSamp cl (group_values rows k)) (sql_group_keys rows))]"
    by (simp add: data_frame_run_query)
  have col: "map hd (data_rows g) = sql_group_keys rows"
    unfolding g by (simp only: data_rows_first_column)
  have "files v' ch_output_file = Some g" by (simp add: f)
  moreover have "header g = [''passenger_count'', ''mean_fare'', ''median_fare'', ''variance_fare'']"
    by (simp add: g header_def)
  moreover have "map hd (data_rows g) = map Some ?keys @ (if None \<in> fst ` set rows then [None] else [])"
    unfolding col by (simp add: sql_group_keys_def)
  moreover have "length (data_rows g) = length (map hd (data_rows g))" by simp
  moreover have "distinct (map hd (data_rows g))" "set (map hd (data_rows g)) = fst ` set rows"
    unfolding col by (rule sql_group_keys_distinct, rule set_sql_group_keys)
  moreover have "sorted ?keys" "distinct ?keys" "set ?keys = {k. Some k \<in> fst ` set rows}"
    by (rule group_keys_sorted, rule group_keys_distinct, rule set_group_keys)
  ultimately show "\<exists>out k rows keys.
          files v' ch_output_file = Some out
        \<and> header out = [''passenger_count'', ''mean_fare'', ''median_fare'', ''variance_fare'']
        \<and> remote v database table k = Inr rows
        \<and> map hd (data_rows out) = map Some keys @ (if None \<in> fst ` set rows then [None] else [])
        \<and> length (data_rows out) = length (map hd (data_rows out))
        \<and> distinct (map hd (data_rows out)) \<and> set (map hd (data_rows out)) = fst ` set rows
        \<and> sorted keys \<and> distinct keys \<and> set keys = {k. Some k \<in> fst ` set rows}"
    using q by blast
qed

theorem output_file_header_and_rows_witness:
  "(\<exists>r w' out. benchmark_pandas_approach ''data/nyc_taxi_data.csv'' ''results_pandas.csv'' None 3 2
        scenario_world = (Inr r, w')
      \<and> files w' ''results_pandas.csv'' = Some out
      \<and> header out = [''passenger_count'', ''mean_fare'', ''median_fare'', ''variance_fare'']
      \<and> length (data_rows out) = 2)
   \<and> (\<exists>r2 v' out2. benchmark_clickhouse_approach exact_client ''nyc_taxi'' ''trips_small''
        ''results_clickhouse.csv'' 3 2 scenario_world = (Inr r2, v')
      \<and> files v' ''results_clickhouse.csv'' = Some out2
      \<and> header out2 = [''passenger_count'', ''mean_fare'', ''median_fare'', ''variance_fare'']
      \<and> length (data_rows out2) = 2)"
proof
  let ?D = "''data/nyc_taxi_data.csv''" and ?P = "''results_pandas.csv''"
  have i3: "(1::int) \<le> 3" by simp
  have t: "csv_table (files scenario_world ?D) ?D (if truthy None then None else None) = Inr scenario_csv"
    by (simp add: scenario_table)
  from pandas_run_ok [OF t scenario_compute scenario_writable i3] obtain r w' where
    run: "benchmark_pandas_approach ?D ?P None 3 2 scenario_world = (Inr r, w')" by blast
  from output_file_header_and_rows [THEN conjunct1, rule_format, OF run]
  obtain out df ks vs keys where f: "files w' ?P = Some out"
    and h: "header out = [''passenger_count'', ''mean_fare'', ''median_fare'', ''variance_fare'']"
    and df: "csv_table (files scenario_world ?D) ?D (if truthy None then None else None) = Inr df"
    and ks: "map_of df ''passenger_count'' = Some ks" and vs: "map_of df ''fare_amount'' = Some vs"
    and len: "length (data_rows out) = length keys"
    and dist: "distinct keys" and set: "set keys = {k. Some k \<in> fst ` set (zip ks vs)}"
    by blast
  from df t have "df = scenario_csv" by simp
  with ks vs have "ks = [Some 1, Some 1, Some 2]" "vs = [Some 10, Some 20, Some 15]"
    by (simp_all add: scenario_csv_def)
  with set have "set keys = {1, 2}" by auto
  with dist have "length keys = card {1::real, 2}" by (metis distinct_card)
  then have "length keys = 2" by simp
  with run f h len
  show "\<exists>r w' out. benchmark_pandas_approach ?D ?P None 3 2 scenario_world = (Inr r, w')
      \<and> files w' ?P = Some out
      \<and> header out = [''passenger_count'', ''mean_fare'', ''median_fare'', ''variance_fare'']
      \<and> length (data_rows out) = 2"
    by auto
next
  let ?C = "''results_clickhouse.csv''" and ?db = "''nyc_taxi''" and ?tb = "''trips_small''"
  have i3: "(1::int) \<le> 3" by simp
  from clickhouse_run_ok [OF scenario_remote scenario_writable i3] obtain r2 v' where
    run: "benchmark_clickhouse_approach exact_client ?db ?tb ?C 3 2 scenario_world = (Inr r2, v')"
    by blast
  from output_file_header_and_rows [THEN conjunct2, rule_format, OF run]
  obtain out k rows where f: "files v' ?C = Some out"
    and h: "header out = [''passenger_count'', ''mean_fare'', ''median_fare'', ''variance_fare'']"
    and q: "remote scenario_world ?db ?tb k = Inr rows"
    and len: "length (data_rows out) = length (map hd (data_rows out))"
    and dist: "distinct (map hd (data_rows out))"
    and set: "set (map hd (data_rows out)) = fst ` set rows"
    by blast
  from q have "rows = scenario_rows" by (simp add: scenario_world_def)
  with set have "set (map hd (data_rows out)) = {Some 1, Some 2}"
    by (auto simp: scenario_rows_def)
  with dist have "length (map hd (data_rows out)) = card {Some (1::real), Some 2}"
    by (metis distinct_card)
  then have "length (map hd (data_rows out)) = 2" by simp
  with run f h len
  show "\<exists>r2 v' out2. benchmark_clickhouse_approach exact_client ?db ?tb ?C 3 2 scenario_world = (Inr r2, v')
      \<and> files v' ?C = Some out2
      \<and> header out2 = [''passenger_count'', ''mean_fare'', ''median_fare'', ''variance_fare'']
      \<and> length (data_rows out2) = 2"
    by auto
qed

text \<open>
  C10. For every input file that has the columns \<open>passenger_count\<close> and \<open>fare_amount\<close>,
  loading only these two columns and loading all columns give the compute phase tables with
  the same result; so a run with the column selection and a run without it, on the same
  file, return equal aggregation results and write equal output files.
\<close>

theorem usecols_same_aggregates:
  assumes "files w csv_file = Some tbl" and "files v csv_file = Some tbl"
    and "''passenger_count'' \<in> fst ` set tbl" and "''fare_amount'' \<in> fst ` set tbl"
  shows "(\<exists>df. csv_table (files w csv_file) csv_file (Some [''fare_amount'', ''passenger_count'']) = Inr df
            \<and> csv_table (files v csv_file) csv_file None = Inr tbl
            \<and> compute df = compute tbl)
       \<and> (benchmark_pandas_approach csv_file selective_output
              (Some [''fare_amount'', ''passenger_count'']) iterations warmup w = (Inr r1, w')
          \<and> benchmark_pandas_approach csv_file full_output None iterations2 warmup2 v = (Inr r2, v')
          \<longrightarrow> results r1 = results r2
            \<and> (\<exists>g. results r1 = Some g \<and> compute tbl = Inr g)
            \<and> files w' selective_output = files v' full_output)"
proof -
  let ?cols = "[''fare_amount'', ''passenger_count'']"
  let ?df = "filter (\<lambda>col. fst col \<in> set ?cols) tbl"
  from assms(3) have ne: "tbl \<noteq> []" by auto
  from assms(3,4) ne have sel: "csv_table (Some tbl) csv_file (Some ?cols) = Inr ?df"
    by (simp add: csv_table_def)
  from ne have full: "csv_table (Some tbl) csv_file None = Inr tbl"
    by (simp add: csv_table_def)
  have same: "compute ?df = compute tbl"
    by (rule compute_usecols) simp_all
  have tr: "truthy (Some ?cols)" and fa: "\<not> truthy None"
    by (simp_all add: truthy_def)
  have runs: "results r1 = results r2 \<and> (\<exists>g. results r1 = Some g \<and> compute tbl = Inr g)
      \<and> files w' selective_output = files v' full_output"
    if r1: "benchmark_pandas_approach csv_file selective_output (Some ?cols) iterations warmup w = (Inr r1, w')"
      and r2: "benchmark_pandas_approach csv_file full_output None iterations2 warmup2 v = (Inr r2, v')"
  proof -
    from pandas_run_facts(2) [OF r1] tr assms(1) sel obtain g1 where
      g1: "compute ?df = Inr g1" "results r1 = Some g1" "files w' = (files w)(selective_output \<mapsto> g1)"
      by auto
    from pandas_run_facts(2) [OF r2] fa assms(2) full obtain g2 where
      g2: "compute tbl = Inr g2" "results r2 = Some g2" "files v' = (files v)(full_output \<mapsto> g2)"
      by auto
    from g1(1) g2(1) same have "g1 = g2" by simp
    with g1 g2 show ?thesis by simp
  qed
  from sel full same assms(1,2) runs show ?thesis by auto
qed

theorem usecols_same_aggregates_witness:
  "\<exists>r1 w' r2 v'.
     benchmark_pandas_approach ''data/nyc_taxi_data.csv'' ''results_pandas.csv''
       (Some [''fare_amount'', ''passenger_count'']) 3 2 scenario_world = (Inr r1, w')
   \<and> benchmark_pandas_approach ''data/nyc_taxi_data.csv'' ''results_pandas_full.csv'' None 3 2
       scenario_world = (Inr r2, v')
   \<and> results r1 = results r2
   \<and> results r1 = Some [(''passenger_count'', [Some 1, Some 2]), (''mean_fare'', [Some 15, Some 15]),
          (''median_fare'', [Some 15, Some 15]), (''variance_fare'', [Some 50, None])]
   \<and> files w' ''results_pandas.csv'' = files v' ''results_pandas_full.csv''"
proof -
  let ?D = "''data/nyc_taxi_data.csv''"
  let ?cols = "[''fare_amount'', ''passenger_count'']"
  have i3: "(1::int) \<le> 3" by simp
  have f: "files scenario_world ?D = Some scenario_csv"
    by (simp add: scenario_world_def)
  have pc: "''passenger_count'' \<in> fst ` set scenario_csv"
    and fa: "''fare_amount'' \<in> fst ` set scenario_csv"
    by (simp_all add: scenario_csv_def)
  note T = usecols_same_aggregates [OF f f pc fa]
  from T obtain df where
    sel: "csv_table (files scenario_world ?D) ?D (Some ?cols) = Inr df"
    and same: "compute df = compute scenario_csv"
    by blast
  have "truthy (Some ?cols)" by (simp add: truthy_def)
  with sel have t1: "csv_table (files scenario_world ?D) ?D
      (if truthy (Some ?cols) then Some ?cols else None) = Inr df" by simp
  from same scenario_compute have c1: "compute df = Inr [(''passenger_count'', [Some 1, Some 2]),
      (''mean_fare'', [Some 15, Some 15]), (''median_fare'', [Some 15, Some 15]),
      (''variance_fare'', [Some 50, None])]" by simp
  from pandas_run_ok [OF t1 c1 scenario_writable i3] obtain r1 w' where
    r1: "benchmark_pandas_approach ?D ''results_pandas.csv'' (Some ?cols) 3 2 scenario_world = (Inr r1, w')"
    by blast
  have t2: "csv_table (files scenario_world ?D) ?D (if truthy None then None else None) = Inr scenario_csv"
    by (simp add: scenario_table)
  from pandas_run_ok [OF t2 scenario_compute scenario_writable i3] obtain r2 v' where
    r2: "benchmark_pandas_approach ?D ''results_pandas_full.csv'' None 3 2 scenario_world = (Inr r2, v')"
    by blast
  from T [THEN conjunct2, rule_format, OF conjI, OF r1 r2] scenario_compute
  have "results r1 = results r2
     \<and> results r1 = Some [(''passenger_count'', [Some 1, Some 2]), (''mean_fare'', [Some 15, Some 15]),
          (''median_fare'', [Some 15, Some 15]), (''variance_fare'', [Some 50, None])]
     \<and> files w' ''results_pandas.csv'' = files v' ''results_pandas_full.csv''"
    by auto
  with r1 r2 show ?thesis by blast
qed



text \<open>
  C4, as the specification states it: with an iteration count of 0 the run fails with an
  \<open>InvalidConfiguration\<close> error detected before any load, query, warmup or timing. The code
  has no such check. In the scenario world, with 0 iterations and 1 warmup iteration, each
  path first does its warmup (one read of the file, one query) and only then fails, with the
  \<open>StatisticsError\<close> of \<^verbatim>\<open>statistics.mean\<close>.
\<close>

theorem zero_iterations_eager_counterexample:
  "benchmark_pandas_approach ''data/nyc_taxi_data.csv'' ''results_pandas.csv'' None 0 1 scenario_world
     = (Inl StatisticsError, scenario_world\<lparr>nreads := 1\<rparr>)
   \<and> nreads scenario_world = 0
   \<and> benchmark_clickhouse_approach exact_client ''nyc_taxi'' ''trips_small''
        ''results_clickhouse.csv'' 0 1 scenario_world
     = (Inl StatisticsError, scenario_world\<lparr>nqueries := 1\<rparr>)
   \<and> nqueries scenario_world = 0"
proof (intro conjI)
  have "pandas_warmup ''data/nyc_taxi_data.csv'' None 1 scenario_world
      = (Inr (), scenario_world\<lparr>nreads := Suc (nreads scenario_world)\<rparr>)"
    by (simp add: pandas_warmup_def py_range_def pandas_warmup_iteration_eq scenario_table
        truthy_def scenario_csv_def groupby_agg_def Let_def)
  then show "benchmark_pandas_approach ''data/nyc_taxi_data.csv'' ''results_pandas.csv'' None 0 1
      scenario_world = (Inl StatisticsError, scenario_world\<lparr>nreads := 1\<rparr>)"
    by (simp add: pandas_zero_iterations) (simp add: scenario_world_def)
  have "clickhouse_warmup exact_client ''nyc_taxi'' ''trips_small'' 1 scenario_world
      = (Inr (), scenario_world\<lparr>nqueries := Suc (nqueries scenario_world)\<rparr>)"
    by (simp add: clickhouse_warmup_def py_range_def clickhouse_warmup_iteration_eq)
       (simp add: scenario_world_def)
  then show "benchmark_clickhouse_approach exact_client ''nyc_taxi'' ''trips_small''
        ''results_clickhouse.csv'' 0 1 scenario_world
      = (Inl StatisticsError, scenario_world\<lparr>nqueries := 1\<rparr>)"
    by (simp add: clickhouse_zero_iterations) (simp add: scenario_world_def)
  show "nreads scenario_world = 0" "nqueries scenario_world = 0"
    by (simp_all add: scenario_world_def)
qed

text \<open>
  C4, amended: with an iteration count of 0 a run of either path fails, but not eagerly and
  not with a configuration error of its own. The warmup iterations run first, each loading
  the file or sending the query; then no measured iteration runs, no clock reading is taken,
  nothing is written, and the run fails with the \<open>StatisticsError\<close> that \<^verbatim>\<open>statistics.mean\<close>
  raises on the empty list of samples, or with the error of a warmup iteration that failed.
\<close>

theorem zero_iterations_fail_after_warmup:
  "benchmark_pandas_approach csv_file output_file usecols 0 warmup w =
     (case pandas_warmup csv_file usecols warmup w of
        (Inl e, w1) \<Rightarrow> (Inl e, w1)
      | (Inr u, w1) \<Rightarrow> (Inl StatisticsError, w1))
   \<and> (pandas_warmup csv_file usecols warmup w = (Inr u, w1) \<longrightarrow> nreads w1 = nreads w + nat warmup)
   \<and> (benchmark_pandas_approach csv_file output_file usecols 0 warmup w = (x, w') \<longrightarrow>
        (\<exists>e. x = Inl e) \<and> nticks w' = nticks w \<and> writes w' = writes w \<and> files w' = files w)
   \<and> benchmark_clickhouse_approach cl database table ch_output_file 0 warmup v =
     (case clickhouse_warmup cl database table warmup v of
        (Inl e, v1) \<Rightarrow> (Inl e, v1)
      | (Inr u, v1) \<Rightarrow> (Inl StatisticsError, v1))
   \<and> (clickhouse_warmup cl database table warmup v = (Inr u, v1) \<longrightarrow>
        nqueries v1 = nqueries v + nat warmup)
   \<and> (benchmark_clickhouse_approach cl database table ch_output_file 0 warmup v = (y, v') \<longrightarrow>
        (\<exists>e. y = Inl e) \<and> nticks v' = nticks v \<and> writes v' = writes v \<and> files v' = files v)
   \<and> statistics_mean [] = Inl StatisticsError"
proof (intro conjI impI)
  show "benchmark_pandas_approach csv_file output_file usecols 0 warmup w =
     (case pandas_warmup csv_file usecols warmup w of
        (Inl e, w1) \<Rightarrow> (Inl e, w1)
      | (Inr u, w1) \<Rightarrow> (Inl StatisticsError, w1))"
    by (rule pandas_zero_iterations)
  show "benchmark_clickhouse_approach cl database table ch_output_file 0 warmup v =
     (case clickhouse_warmup cl database table warmup v of
        (Inl e, v1) \<Rightarrow> (Inl e, v1)
      | (Inr u, v1) \<Rightarrow> (Inl StatisticsError, v1))"
    by (rule clickhouse_zero_iterations)
  show "statistics_mean [] = Inl StatisticsError"
    by (simp add: statistics_mean_def)
next
  assume "pandas_warmup csv_file usecols warmup w = (Inr u, w1)"
  then show "nreads w1 = nreads w + nat warmup" by (rule pandas_warmup_reads)
next
  assume "clickhouse_warmup cl database table warmup v = (Inr u, v1)"
  then show "nqueries v1 = nqueries v + nat warmup" by (rule clickhouse_warmup_queries)
next
  assume run: "benchmark_pandas_approach csv_file output_file usecols 0 warmup w = (x, w')"
  obtain r1 w1 where wu: "pandas_warmup csv_file usecols warmup w = (r1, w1)"
    by (cases "pandas_warmup csv_file usecols warmup w")
  from run wu have x: "\<exists>e. x = Inl e" and w': "w' = w1"
    by (auto simp: pandas_zero_iterations split: sum.splits)
  from x show "\<exists>e. x = Inl e" .
  from pandas_warmup_frame [OF wu] w'
  show "nticks w' = nticks w" "writes w' = writes w" "files w' = files w"
    by (simp_all add: outside_unchanged_def)
next
  assume run: "benchmark_clickhouse_approach cl database table ch_output_file 0 warmup v = (y, v')"
  obtain r1 w1 where wu: "clickhouse_warmup cl database table warmup v = (r1, w1)"
    by (cases "clickhouse_warmup cl database table warmup v")
  from run wu have y: "\<exists>e. y = Inl e" and v': "v' = w1"
    by (auto simp: clickhouse_zero_iterations split: sum.splits)
  from y show "\<exists>e. y = Inl e" .
  from clickhouse_warmup_frame [OF wu] v'
  show "nticks v' = nticks v" "writes v' = writes v" "files v' = files v"
    by (simp_all add: outside_unchanged_def)
qed

theorem zero_iterations_fail_after_warmup_witness:
  "(\<exists>w'. benchmark_pandas_approach ''data/nyc_taxi_data.csv'' ''results_pandas.csv'' None 0 2
        scenario_world = (Inl StatisticsError, w')
      \<and> nreads w' = 2 \<and> nticks w' = 0 \<and> writes w' = [])
   \<and> (\<exists>v'. benchmark_clickhouse_approach exact_client ''nyc_taxi'' ''trips_small''
        ''results_clickhouse.csv'' 0 2 scenario_world = (Inl StatisticsError, v')
      \<and> nqueries v' = 2 \<and> nticks v' = 0 \<and> writes v' = [])"
proof
  let ?D = "''data/nyc_taxi_data.csv''" and ?P = "''results_pandas.csv''"
  note T = zero_iterations_fail_after_warmup [where csv_file = ?D and output_file = ?P
      and usecols = None and warmup = 2 and w = scenario_world]
  have t: "csv_table (files scenario_world ?D) ?D (if truthy None then None else None) = Inr scenario_csv"
    by (simp add: scenario_table)
  from pandas_warmup_ok [OF t scenario_compute] obtain w1 where
    wu: "pandas_warmup ?D None 2 scenario_world = (Inr (), w1)" by blast
  with T have run: "benchmark_pandas_approach ?D ?P None 0 2 scenario_world = (Inl StatisticsError, w1)"
    by simp
  from T [where u = "()" and ?w1.0 = w1] wu have "nreads w1 = nreads scenario_world + nat 2"
    by blast
  moreover from T [where x = "Inl StatisticsError" and w' = w1] run
  have "nticks w1 = nticks scenario_world \<and> writes w1 = writes scenario_world" by blast
  ultimately have "nreads w1 = 2 \<and> nticks w1 = 0 \<and> writes w1 = []"
    by (simp add: scenario_world_def)
  with run show "\<exists>w'. benchmark_pandas_approach ?D ?P None 0 2 scenario_world = (Inl StatisticsError, w')
      \<and> nreads w' = 2 \<and> nticks w' = 0 \<and> writes w' = []" by blast
next
  let ?C = "''results_clickhouse.csv''" and ?db = "''nyc_taxi''" and ?tb = "''trips_small''"
  note T = zero_iterations_fail_after_warmup [where cl = exact_client and database = ?db
      and table = ?tb and ch_output_file = ?C and warmup = 2 and v = scenario_world]
  from clickhouse_warmup_loop_ok [OF scenario_remote, of "py_range 2" exact_client ?db ?tb]
  obtain v1 where
    "for_loop (py_range 2) (clickhouse_warmup_iteration exact_client ?db ?tb) () scenario_world
       = (Inr (), v1)" by blast
  then have wu: "clickhouse_warmup exact_client ?db ?tb 2 scenario_world = (Inr (), v1)"
    by (simp add: clickhouse_warmup_def)
  with T have run: "benchmark_clickhouse_approach exact_client ?db ?tb ?C 0 2 scenario_world
      = (Inl StatisticsError, v1)"
    by simp
  from T [where u = "()" and ?v1.0 = v1] wu have "nqueries v1 = nqueries scenario_world + nat 2"
    by blast
  moreover from T [where y = "Inl StatisticsError" and v' = v1] run
  have "nticks v1 = nticks scenario_world \<and> writes v1 = writes scenario_world" by blast
  ultimately have "nqueries v1 = 2 \<and> nticks v1 = 0 \<and> writes v1 = []"
    by (simp add: scenario_world_def)
  with run show "\<exists>v'. benchmark_clickhouse_approach exact_client ?db ?tb ?C 0 2 scenario_world
      = (Inl StatisticsError, v') \<and> nqueries v' = 2 \<and> nticks v' = 0 \<and> writes v' = []" by blast
qed

text \<open>
  C6, as the specification states it: when a measured iteration fails, the run fails with a
  \<open>MeasurementFailed\<close> error that keeps the timing samples of the iterations completed before.
  The code has no handler. With three iterations against an engine that answers two queries
  and is then unreachable, the first two iterations complete and collect their samples, and
  the run then ends with the client's own exception, which holds no samples.
\<close>

theorem failed_iteration_keeps_samples_counterexample:
  "for_loop [0, 1]
     (clickhouse_iteration exact_client ''nyc_taxi'' ''trips_small'' ''results_clickhouse.csv'' 3)
     ([], [], [], None) flaky_world
   = (Inr ([1, 1], [1, 1], [2, 2],
           Some [(''passenger_count'', [Some 1, Some 2]), (''mean_fare'', [Some 15, Some 15]),
                 (''median_fare'', [Some 15, Some 15]), (''variance_fare'', [Some 50, None])]),
      flaky_world\<lparr>nticks := 8, nqueries := 2\<rparr>)
   \<and> benchmark_clickhouse_approach exact_client ''nyc_taxi'' ''trips_small''
        ''results_clickhouse.csv'' 3 0 flaky_world
     = (Inl (ClientError ''unreachable''), flaky_world\<lparr>nticks := 9, nqueries := 3\<rparr>)"
proof
  show two: "for_loop [0, 1]
     (clickhouse_iteration exact_client ''nyc_taxi'' ''trips_small'' ''results_clickhouse.csv'' 3)
     ([], [], [], None) flaky_world
   = (Inr ([1, 1], [1, 1], [2, 2],
           Some [(''passenger_count'', [Some 1, Some 2]), (''mean_fare'', [Some 15, Some 15]),
                 (''median_fare'', [Some 15, Some 15]), (''variance_fare'', [Some 50, None])]),
      flaky_world\<lparr>nticks := 8, nqueries := 2\<rparr>)"
    by (rule flaky_two_iterations)
  have wu: "clickhouse_warmup exact_client ''nyc_taxi'' ''trips_small'' 0 flaky_world
      = (Inr (), flaky_world)"
    by (simp add: clickhouse_warmup_def succeed_def)
  have k: "2 < nat 3" by simp
  have r: "[0..<2] = [0, 1]" by (simp add: upt_rec)
  show "benchmark_clickhouse_approach exact_client ''nyc_taxi'' ''trips_small''
        ''results_clickhouse.csv'' 3 0 flaky_world
     = (Inl (ClientError ''unreachable''), flaky_world\<lparr>nticks := 9, nqueries := 3\<rparr>)"
    by (rule clickhouse_run_fails_at [OF wu k _ flaky_third_iteration]) (simp only: r two)
qed

text \<open>
  C6, amended: when a measured iteration fails, the run of that path stops there and fails
  with that iteration's own exception, unwrapped. No later iteration runs, no summary
  statistics are computed, nothing more is done to the outside world, and the timing samples
  of the iterations completed before are discarded: the exception does not carry them.
\<close>

theorem failed_iteration_aborts_run:
  "(pandas_warmup csv_file usecols warmup w = (Inr u, w0)
      \<and> k < nat iterations
      \<and> for_loop [0..<k] (pandas_iteration csv_file output_file usecols iterations)
            ([], [], [], None) w0 = (Inr s, w1)
      \<and> pandas_iteration csv_file output_file usecols iterations k s w1 = (Inl e, w2)
    \<longrightarrow> benchmark_pandas_approach csv_file output_file usecols iterations warmup w = (Inl e, w2))
   \<and> (clickhouse_warmup cl database table warmup v = (Inr u, v0)
      \<and> k < nat iterations
      \<and> for_loop [0..<k] (clickhouse_iteration cl database table ch_output_file iterations)
            ([], [], [], None) v0 = (Inr s, v1)
      \<and> clickhouse_iteration cl database table ch_output_file iterations k s v1 = (Inl e, v2)
    \<longrightarrow> benchmark_clickhouse_approach cl database table ch_output_file iterations warmup v
          = (Inl e, v2))"
proof (intro conjI impI)
  assume "pandas_warmup csv_file usecols warmup w = (Inr u, w0)
      \<and> k < nat iterations
      \<and> for_loop [0..<k] (pandas_iteration csv_file output_file usecols iterations)
            ([], [], [], None) w0 = (Inr s, w1)
      \<and> pandas_iteration csv_file output_file usecols iterations k s w1 = (Inl e, w2)"
  then show "benchmark_pandas_approach csv_file output_file usecols iterations warmup w = (Inl e, w2)"
    by (elim conjE) (rule pandas_run_fails_at)
next
  assume "clickhouse_warmup cl database table warmup v = (Inr u, v0)
      \<and> k < nat iterations
      \<and> for_loop [0..<k] (clickhouse_iteration cl database table ch_output_file iterations)
            ([], [], [], None) v0 = (Inr s, v1)
      \<and> clickhouse_iteration cl database table ch_output_file iterations k s v1 = (Inl e, v2)"
  then show "benchmark_clickhouse_approach cl database table ch_output_file iterations warmup v
          = (Inl e, v2)"
    by (elim conjE) (rule clickhouse_run_fails_at)
qed

theorem failed_iteration_aborts_run_witness:
  "benchmark_pandas_approach ''missing.csv'' ''results_pandas.csv'' None 3 0 scenario_world
     = (Inl (FileNotFoundError ''missing.csv''), scenario_world\<lparr>nticks := 1, nreads := 1\<rparr>)
   \<and> benchmark_clickhouse_approach exact_client ''nyc_taxi'' ''trips_small''
        ''results_clickhouse.csv'' 3 0 flaky_world
     = (Inl (ClientError ''unreachable''), flaky_world\<lparr>nticks := 9, nqueries := 3\<rparr>)"
proof
  let ?M = "''missing.csv''" and ?P = "''results_pandas.csv''"
  have wu: "pandas_warmup ?M None 0 scenario_world = (Inr (), scenario_world)"
    by (simp add: pandas_warmup_def succeed_def)
  have k: "0 < nat 3" by simp
  have pre: "for_loop [0..<0] (pandas_iteration ?M ?P None 3) ([], [], [], None) scenario_world
      = (Inr ([], [], [], None), scenario_world)" by simp
  have it: "pandas_iteration ?M ?P None 3 0 ([], [], [], None) scenario_world
      = (Inl (FileNotFoundError ?M), scenario_world\<lparr>nticks := 1, nreads := 1\<rparr>)"
    by (simp add: pandas_iteration_eq scenario_missing Let_def) (simp add: scenario_world_def)
  from failed_iteration_aborts_run [THEN conjunct1, rule_format, OF conjI, OF wu conjI, OF k conjI,
      OF pre it]
  show "benchmark_pandas_approach ?M ?P None 3 0 scenario_world
     = (Inl (FileNotFoundError ?M), scenario_world\<lparr>nticks := 1, nreads := 1\<rparr>)" .
next
  let ?C = "''results_clickhouse.csv''" and ?db = "''nyc_taxi''" and ?tb = "''trips_small''"
  have wu: "clickhouse_warmup exact_client ?db ?tb 0 flaky_world = (Inr (), flaky_world)"
    by (simp add: clickhouse_warmup_def succeed_def)
  have k: "2 < nat 3" by simp
  have r: "[0..<2] = [0, 1]" by (simp add: upt_rec)
  have pre: "for_loop [0..<2] (clickhouse_iteration exact_client ?db ?tb ?C 3) ([], [], [], None)
      flaky_world
      = (Inr ([1, 1], [1, 1], [2, 2],
           Some [(''passenger_count'', [Some 1, Some 2]), (''mean_fare'', [Some 15, Some 15]),
                 (''median_fare'', [Some 15, Some 15]), (''variance_fare'', [Some 50, None])]),
         flaky_world\<lparr>nticks := 8, nqueries := 2\<rparr>)"
    by (simp only: r flaky_two_iterations)
  from failed_iteration_aborts_run [THEN conjunct2, rule_format, OF conjI, OF wu conjI, OF k conjI,
      OF pre flaky_third_iteration]
  show "benchmark_clickhouse_approach exact_client ?db ?tb ?C 3 0 flaky_world
     = (Inl (ClientError ''unreachable''), flaky_world\<lparr>nticks := 9, nqueries := 3\<rparr>)" .
qed

text \<open>
  C7, as the specification states it: when the mean total duration of the baseline is zero,
  the speedup ratio is flagged as undefined and no division by zero aborts the report. The
  code divides without a test. With every option at its default and a clock whose readings
  are all equal, the three benchmarks return and \<^verbatim>\<open>main\<close> then ends with \<open>ZeroDivisionError\<close>.
\<close>

theorem speedup_zero_baseline_counterexample:
  "fst (main exact_client default_args frozen_world) = Inl ZeroDivisionError"
proof -
  let ?D = "''data/nyc_taxi_data.csv''" and ?P = "''results_pandas.csv''"
  let ?F = "''results_pandas_full.csv''" and ?C = "''results_clickhouse.csv''"
  let ?cols = "[''fare_amount'', ''passenger_count'']"
  have i: "(1::int) \<le> 5" by simp
  have fr: "ticks frozen_world = (\<lambda>n. 0)" "unwritable frozen_world = []"
    "remote frozen_world = (\<lambda>database table k. Inr scenario_rows)"
    "files frozen_world ?D = Some scenario_csv"
    by (simp_all add: frozen_world_def scenario_world_def)
  \<comment> \<open>the selective pandas run\<close>
  have "csv_table (files frozen_world ?D) ?D (Some ?cols)
      = Inr (filter (\<lambda>col. fst col \<in> set ?cols) scenario_csv)"
    by (simp add: fr csv_table_def scenario_csv_def)
  then have t1: "csv_table (files frozen_world ?D) ?D (if truthy (Some ?cols) then Some ?cols else None)
      = Inr (filter (\<lambda>col. fst col \<in> set ?cols) scenario_csv)"
    by (simp add: truthy_def)
  have c1: "compute (filter (\<lambda>col. fst col \<in> set ?cols) scenario_csv)
      = Inr [(''passenger_count'', [Some 1, Some 2]), (''mean_fare'', [Some 15, Some 15]),
          (''median_fare'', [Some 15, Some 15]), (''variance_fare'', [Some 50, None])]"
    using compute_usecols [of ?cols scenario_csv] by (simp add: scenario_compute)
  have o1: "?P \<notin> set (unwritable frozen_world)" by (simp add: fr)
  from pandas_run_ok [OF t1 c1 o1 i] obtain p1 w1 where
    r1: "benchmark_pandas_approach ?D ?P (Some ?cols) 5 1 frozen_world = (Inr p1, w1)" by blast
  from pandas_run_surroundings [OF r1] fr have s1: "ticks w1 = (\<lambda>n. 0)" "unwritable w1 = []"
    "remote w1 = (\<lambda>database table k. Inr scenario_rows)"
    by (simp_all add: same_surroundings_def)
  from pandas_run_facts(2) [OF r1] fr have f1: "files w1 ?D = Some scenario_csv" by auto
  \<comment> \<open>the full pandas run\<close>
  from f1 have t2: "csv_table (files w1 ?D) ?D (if truthy None then None else None) = Inr scenario_csv"
    by (simp add: csv_table_def scenario_csv_def)
  have o2: "?F \<notin> set (unwritable w1)" by (simp add: s1)
  from pandas_run_ok [OF t2 scenario_compute o2 i] obtain p2 w2 where
    r2: "benchmark_pandas_approach ?D ?F None 5 1 w1 = (Inr p2, w2)" by blast
  from pandas_run_surroundings [OF r2] s1 have s2: "ticks w2 = (\<lambda>n. 0)" "unwritable w2 = []"
    "remote w2 = (\<lambda>database table k. Inr scenario_rows)"
    by (simp_all add: same_surroundings_def)
  \<comment> \<open>the ClickHouse run\<close>
  have q: "\<forall>k. \<exists>rows. remote w2 ''nyc_taxi'' ''trips_small'' k = Inr rows" by (simp add: s2)
  have o3: "?C \<notin> set (unwritable w2)" by (simp add: s2)
  from clickhouse_run_ok [OF q o3 i] obtain c w3 where
    r3: "benchmark_clickhouse_approach exact_client ''nyc_taxi'' ''trips_small'' ?C 5 1 w2 = (Inr c, w3)"
    by blast
  from s2(1) have "\<forall>k. ticks w2 (Suc k) - ticks w2 k = 0" by simp
  from clickhouse_uniform_total [OF r3 this] have z: "ch_total_mean c = 0" by simp
  have a: "args_csv_input default_args = ?D" "args_csv_output_pandas default_args = ?P"
    "py_replace ''.csv'' ''_full.csv'' (args_csv_output_pandas default_args) = ?F"
    "args_csv_output_clickhouse default_args = ?C" "args_database default_args = ''nyc_taxi''"
    "args_table default_args = ''trips_small''" "args_iterations default_args = 5"
    "args_warmup default_args = 1"
    by (simp_all add: default_args_def replace_full)
  have "main exact_client default_args frozen_world = (speedups p1 p2 c, w3)"
    by (rule main_returns [where ?w1.0 = w1 and ?w2.0 = w2]) (simp_all only: a replace_full r1 r2 r3)
  with z show ?thesis by (simp add: speedups_eq)
qed

text \<open>
  C7, amended: when the three benchmarks have returned, the report computes for each pandas
  variant the ratio of its mean total duration to the mean total duration of the ClickHouse
  run, and the two differences, each a float operation. When the ClickHouse mean total
  duration is zero the division raises \<open>ZeroDivisionError\<close> and \<^verbatim>\<open>main\<close> ends with it: nothing
  flags the ratio as undefined.
\<close>

theorem speedup_ratio_or_zero_division:
  "speedups p1 p2 c =
     (if ch_total_mean c = 0 then Inl ZeroDivisionError
      else Inr \<lparr>speedup_selective = double_round (total_mean p1 / ch_total_mean c),
                speedup_full = double_round (total_mean p2 / ch_total_mean c),
                saved_selective = double_round (total_mean p1 - ch_total_mean c),
                saved_full = double_round (total_mean p2 - ch_total_mean c)\<rparr>)
   \<and> (benchmark_pandas_approach (args_csv_input a) (args_csv_output_pandas a)
             (Some [''fare_amount'', ''passenger_count'']) (args_iterations a) (args_warmup a) w
           = (Inr p1, w1)
      \<and> benchmark_pandas_approach (args_csv_input a)
             (py_replace ''.csv'' ''_full.csv'' (args_csv_output_pandas a)) None
             (args_iterations a) (args_warmup a) w1 = (Inr p2, w2)
      \<and> benchmark_clickhouse_approach cl (args_database a) (args_table a)
             (args_csv_output_clickhouse a) (args_iterations a) (args_warmup a) w2 = (Inr c, w3)
      \<longrightarrow> main cl a w = (speedups p1 p2 c, w3))"
proof (intro conjI impI)
  show "speedups p1 p2 c =
     (if ch_total_mean c = 0 then Inl ZeroDivisionError
      else Inr \<lparr>speedup_selective = double_round (total_mean p1 / ch_total_mean c),
                speedup_full = double_round (total_mean p2 / ch_total_mean c),
                saved_selective = double_round (total_mean p1 - ch_total_mean c),
                saved_full = double_round (total_mean p2 - ch_total_mean c)\<rparr>)"
    by (rule speedups_eq)
next
  assume "benchmark_pandas_approach (args_csv_input a) (args_csv_output_pandas a)
             (Some [''fare_amount'', ''passenger_count'']) (args_iterations a) (args_warmup a) w
           = (Inr p1, w1)
      \<and> benchmark_pandas_approach (args_csv_input a)
             (py_replace ''.csv'' ''_full.csv'' (args_csv_output_pandas a)) None
             (args_iterations a) (args_warmup a) w1 = (Inr p2, w2)
      \<and> benchmark_clickhouse_approach cl (args_database a) (args_table a)
             (args_csv_output_clickhouse a) (args_iterations a) (args_warmup a) w2 = (Inr c, w3)"
  then show "main cl a w = (speedups p1 p2 c, w3)"
    by (elim conjE) (rule main_returns)
qed


theorem speedup_ratio_or_zero_division_witness:
  "\<exists>p1 p2 c w3.
     main exact_client default_args scenario_world = (speedups p1 p2 c, w3)
   \<and> ch_total_mean c = 2
   \<and> speedups p1 p2 c =
       Inr \<lparr>speedup_selective = double_round (total_mean p1 / 2),
            speedup_full = double_round (total_mean p2 / 2),
            saved_selective = double_round (total_mean p1 - 2),
            saved_full = double_round (total_mean p2 - 2)\<rparr>"
proof -
  let ?D = "''data/nyc_taxi_data.csv''" and ?P = "''results_pandas.csv''"
  let ?F = "''results_pandas_full.csv''" and ?C = "''results_clickhouse.csv''"
  let ?cols = "[''fare_amount'', ''passenger_count'']"
  have i: "(1::int) \<le> 5" by simp
  have fr: "ticks scenario_world = (\<lambda>n. real n)" "unwritable scenario_world = []"
    "remote scenario_world = (\<lambda>database table k. Inr scenario_rows)"
    "files scenario_world ?D = Some scenario_csv"
    by (simp_all add: scenario_world_def)
  have "csv_table (files scenario_world ?D) ?D (Some ?cols)
      = Inr (filter (\<lambda>col. fst col \<in> set ?cols) scenario_csv)"
    by (simp add: fr csv_table_def scenario_csv_def)
  then have t1: "csv_table (files scenario_world ?D) ?D
      (if truthy (Some ?cols) then Some ?cols else None)
      = Inr (filter (\<lambda>col. fst col \<in> set ?cols) scenario_csv)"
    by (simp add: truthy_def)
  have c1: "compute (filter (\<lambda>col. fst col \<in> set ?cols) scenario_csv)
      = Inr [(''passenger_count'', [Some 1, Some 2]), (''mean_fare'', [Some 15, Some 15]),
          (''median_fare'', [Some 15, Some 15]), (''variance_fare'', [Some 50, None])]"
    using compute_usecols [of ?cols scenario_csv] by (simp add: scenario_compute)
  from pandas_run_ok [OF t1 c1 scenario_writable i] obtain p1 w1 where
    r1: "benchmark_pandas_approach ?D ?P (Some ?cols) 5 1 scenario_world = (Inr p1, w1)" by blast
  from pandas_run_surroundings [OF r1] fr have s1: "ticks w1 = (\<lambda>n. real n)" "unwritable w1 = []"
    "remote w1 = (\<lambda>database table k. Inr scenario_rows)"
    by (simp_all add: same_surroundings_def)
  from pandas_run_facts(2) [OF r1] fr have f1: "files w1 ?D = Some scenario_csv" by auto
  from f1 have t2: "csv_table (files w1 ?D) ?D (if truthy None then None else None) = Inr scenario_csv"
    by (simp add: csv_table_def scenario_csv_def)
  have o2: "?F \<notin> set (unwritable w1)" by (simp add: s1)
  from pandas_run_ok [OF t2 scenario_compute o2 i] obtain p2 w2 where
    r2: "benchmark_pandas_approach ?D ?F None 5 1 w1 = (Inr p2, w2)" by blast
  from pandas_run_surroundings [OF r2] s1 have s2: "ticks w2 = (\<lambda>n. real n)" "unwritable w2 = []"
    "remote w2 = (\<lambda>database table k. Inr scenario_rows)"
    by (simp_all add: same_surroundings_def)
  have q: "\<forall>k. \<exists>rows. remote w2 ''nyc_taxi'' ''trips_small'' k = Inr rows" by (simp add: s2)
  have o3: "?C \<notin> set (unwritable w2)" by (simp add: s2)
  from clickhouse_run_ok [OF q o3 i] obtain c w3 where
    r3: "benchmark_clickhouse_approach exact_client ''nyc_taxi'' ''trips_small'' ?C 5 1 w2 = (Inr c, w3)"
    by blast
  from s2(1) have "\<forall>k. ticks w2 (Suc k) - ticks w2 k = 1" by simp
  from clickhouse_uniform_total [OF r3 this] have z: "ch_total_mean c = 2" by simp
  have a: "args_csv_input default_args = ?D" "args_csv_output_pandas default_args = ?P"
    "args_csv_output_clickhouse default_args = ?C" "args_database default_args = ''nyc_taxi''"
    "args_table default_args = ''trips_small''" "args_iterations default_args = 5"
    "args_warmup default_args = 1"
    by (simp_all add: default_args_def)
  note T = speedup_ratio_or_zero_division [where a = default_args and cl = exact_client
      and w = scenario_world and ?p1.0 = p1 and ?w1.0 = w1 and ?p2.0 = p2 and ?w2.0 = w2
      and c = c and ?w3.0 = w3]
  from T a replace_full r1 r2 r3
  have m: "main exact_client default_args scenario_world = (speedups p1 p2 c, w3)"
    by simp
  from T z have "speedups p1 p2 c =
       Inr \<lparr>speedup_selective = double_round (total_mean p1 / 2),
            speedup_full = double_round (total_mean p2 / 2),
            saved_selective = double_round (total_mean p1 - 2),
            saved_full = double_round (total_mean p2 - 2)\<rparr>"
    by simp
  with m z show ?thesis by blast
qed

end
